theory Spec2Isabelle
  imports Complex_Main "HOL-Library.AList" "HOL-Library.List_Lexorder" "HOL-Library.Char_ord"
begin

section \<open>Calendar values\<close>

text \<open>
  A pandas \<open>Timestamp\<close> is a count of nanoseconds since 1970-01-01T00:00:00, and the
  model keeps it as that integer. A Python \<open>datetime.date\<close> is kept as its day number
  relative to 1970-01-01. \<open>pd.to_datetime(d)\<close> on a date is midnight of that day and
  \<open>Timestamp.date()\<close> drops the time of day. Missing timestamps (NaT) are the value
  \<open>None\<close> of a cell, see below.
\<close>

type_synonym timestamp = int
type_synonym date = int

definition ns_per_day :: int where
  "ns_per_day = 86400000000000"

definition to_datetime :: "date \<Rightarrow> timestamp" where
  "to_datetime d = d * ns_per_day"

definition date_of :: "timestamp \<Rightarrow> date" where
  "date_of t = t div ns_per_day"

text \<open>Year, month and day of a day number in the proleptic Gregorian calendar.\<close>

definition civil_from_days :: "date \<Rightarrow> int \<times> int \<times> int" where
  "civil_from_days z0 =
     (let z = z0 + 719468;
          era = z div 146097;
          doe = z - era * 146097;
          yoe = (doe - doe div 1460 + doe div 36524 - doe div 146096) div 365;
          doy = doe - (365 * yoe + yoe div 4 - yoe div 100);
          mp = (5 * doy + 2) div 153;
          d = doy - (153 * mp + 2) div 5 + 1;
          m = (if mp < 10 then mp + 3 else mp - 9);
          y = yoe + era * 400 + (if m \<le> 2 then 1 else 0)
      in (y, m, d))"

definition day_of_month :: "timestamp \<Rightarrow> int" where
  "day_of_month t = (case civil_from_days (date_of t) of (y, m, d) \<Rightarrow> d)"

text \<open>Monday is 0; 1970-01-01 was a Thursday.\<close>

definition weekday_of_date :: "date \<Rightarrow> int" where
  "weekday_of_date d = (d + 3) mod 7"

definition weekday :: "timestamp \<Rightarrow> int" where
  "weekday t = weekday_of_date (date_of t)"

definition week_start :: "timestamp \<Rightarrow> date" where
  "week_start t = date_of t - weekday t"

definition digit :: "nat \<Rightarrow> char" where
  "digit n = ''0123456789'' ! (n mod 10)"

definition pad2 :: "int \<Rightarrow> string" where
  "pad2 n = [digit (nat n div 10), digit (nat n)]"

definition pad4 :: "int \<Rightarrow> string" where
  "pad4 n = [digit (nat n div 1000), digit (nat n div 100), digit (nat n div 10), digit (nat n)]"

text \<open>\<open>str(d)\<close> of a date: \<open>YYYY-MM-DD\<close>.\<close>

definition str_date :: "date \<Rightarrow> string" where
  "str_date d = (case civil_from_days d of (y, m, dd) \<Rightarrow> pad4 y @ ''-'' @ pad2 m @ ''-'' @ pad2 dd)"

text \<open>\<open>str\<close> of the monthly period of a timestamp: \<open>YYYY-MM\<close>.\<close>

definition month_label :: "timestamp \<Rightarrow> string" where
  "month_label t = (case civil_from_days (date_of t) of (y, m, d) \<Rightarrow> pad4 y @ ''-'' @ pad2 m)"

text \<open>
  \<open>str\<close> of the weekly period of a timestamp: the Monday that starts the week and the
  Sunday that ends it, \<open>YYYY-MM-DD/YYYY-MM-DD\<close>.
\<close>

definition week_label :: "timestamp \<Rightarrow> string" where
  "week_label t = str_date (week_start t) @ ''/'' @ str_date (week_start t + 6)"

section \<open>Data frames\<close>

text \<open>
  A frame has an ordered list of column names and an ordered list of rows. A row carries
  its index label and its cells by column name; a name with no cell in a row is a missing
  value (NaN, NaT), read as \<open>None\<close>. Numbers are exact rationals.
\<close>

datatype cell = Num rat | Str string | Stamp timestamp

record row =
  idx :: nat
  cells :: "(string \<times> cell) list"

record frame =
  columns :: "string list"
  rows :: "row list"

datatype error = KeyError | AttributeError | TypeError | ValueError | IndexError
  | DateInputError

definition empty_frame :: frame where
  "empty_frame = \<lparr>columns = [], rows = []\<rparr>"

definition cell_at :: "row \<Rightarrow> string \<Rightarrow> cell option" where
  "cell_at r c = map_of (cells r) c"

text \<open>\<open>df[c]\<close>: the column as a list of values, or KeyError.\<close>

definition getitem :: "frame \<Rightarrow> string \<Rightarrow> error + cell option list" where
  "getitem df c =
     (if c \<in> set (columns df) then Inr (map (\<lambda>r. cell_at r c) (rows df)) else Inl KeyError)"

fun datetimelike :: "cell option \<Rightarrow> bool" where
  "datetimelike None = True"
| "datetimelike (Some (Stamp t)) = True"
| "datetimelike (Some (Num v)) = False"
| "datetimelike (Some (Str s)) = False"

text \<open>The \<open>.dt\<close> accessor exists on columns of timestamps only.\<close>

definition dt :: "cell option list \<Rightarrow> error + cell option list" where
  "dt col = (if list_all datetimelike col then Inr col else Inl AttributeError)"

fun to_period_M_str :: "cell option \<Rightarrow> string" where
  "to_period_M_str (Some (Stamp t)) = month_label t"
| "to_period_M_str c = ''NaT''"

fun to_period_W_str :: "cell option \<Rightarrow> string" where
  "to_period_W_str (Some (Stamp t)) = week_label t"
| "to_period_W_str c = ''NaT''"

fun dt_day :: "cell option \<Rightarrow> cell option" where
  "dt_day (Some (Stamp t)) = Some (Num (of_int (day_of_month t)))"
| "dt_day c = None"

fun dt_weekday :: "cell option \<Rightarrow> cell option" where
  "dt_weekday (Some (Stamp t)) = Some (Num (of_int (weekday t)))"
| "dt_weekday c = None"

text \<open>\<open>df[mask]\<close> and \<open>df.loc[mask]\<close>: a new frame of the rows whose mask entry is true.\<close>

definition select_rows :: "bool list \<Rightarrow> frame \<Rightarrow> frame" where
  "select_rows keep df =
     \<lparr>columns = columns df, rows = map snd (filter fst (zip keep (rows df)))\<rparr>"

definition set_cell :: "string \<Rightarrow> cell option \<Rightarrow> row \<Rightarrow> row" where
  "set_cell c v r =
     \<lparr>idx = idx r,
      cells = (case v of None \<Rightarrow> AList.delete c (cells r)
                 | Some x \<Rightarrow> AList.update c x (cells r))\<rparr>"

text \<open>
  \<open>df[c] = values\<close>: an existing column is overwritten in place, a new one is appended
  as the last column.
\<close>

definition setitem :: "string \<Rightarrow> cell option list \<Rightarrow> frame \<Rightarrow> frame" where
  "setitem c vs df =
     \<lparr>columns = (if c \<in> set (columns df) then columns df else columns df @ [c]),
      rows = map (\<lambda>(v, r). set_cell c v r) (zip vs (rows df))\<rparr>"

text \<open>\<open>df[c] = scalar\<close>: the scalar in every row.\<close>

definition setitem_scalar :: "string \<Rightarrow> cell \<Rightarrow> frame \<Rightarrow> frame" where
  "setitem_scalar c v df = setitem c (replicate (length (rows df)) (Some v)) df"

text \<open>
  \<open>pd.concat([a, b])\<close>: the rows of \<open>a\<close> then those of \<open>b\<close>, index labels kept, over
  the union of the columns in order of first appearance.
\<close>

definition concat_frames :: "frame \<Rightarrow> frame \<Rightarrow> frame" where
  "concat_frames a b =
     \<lparr>columns = columns a @ filter (\<lambda>c. c \<notin> set (columns a)) (columns b),
      rows = rows a @ rows b\<rparr>"

section \<open>The chart request\<close>

text \<open>
  \<open>px.line(df, x=..., y=..., color=..., template="plotly_dark")\<close> checks that each of
  the three names is a column of the frame and raises ValueError otherwise; the model
  keeps the request, not the figure.
\<close>

record plot =
  x_col :: string
  y_col :: string
  color_col :: "string option"
  xaxis_title :: "string option"

definition px_line :: "frame \<Rightarrow> string \<Rightarrow> string \<Rightarrow> string \<Rightarrow> error + plot" where
  "px_line df x y c =
     (if x \<in> set (columns df) \<and> y \<in> set (columns df) \<and> c \<in> set (columns df)
      then Inr \<lparr>x_col = x, y_col = y, color_col = Some c, xaxis_title = None\<rparr>
      else Inl ValueError)"

text \<open>\<open>px.bar(df, x=..., y=..., template="plotly_dark")\<close>, with the same check.\<close>

definition px_bar :: "frame \<Rightarrow> string \<Rightarrow> string \<Rightarrow> error + plot" where
  "px_bar df x y =
     (if x \<in> set (columns df) \<and> y \<in> set (columns df)
      then Inr \<lparr>x_col = x, y_col = y, color_col = None, xaxis_title = None\<rparr>
      else Inl ValueError)"

section \<open>build_comparison_df\<close>

text \<open>
  The month loop and the week loop of \<open>build_comparison_df\<close> are the same loop over
  another period label and another alignment: for each selected label, the rows of
  \<open>data\<close> with that label, tagged with \<open>Period\<close> and \<open>AlignedX\<close>, appended to
  \<open>final_df\<close>.
\<close>

definition tag_period ::
  "(cell option \<Rightarrow> string) \<Rightarrow> (cell option \<Rightarrow> cell option) \<Rightarrow> frame \<Rightarrow> string \<Rightarrow> error + frame"
where
  "tag_period label align data p =
     (case getitem data ''Timestamp'' of Inl e \<Rightarrow> Inl e | Inr col \<Rightarrow>
     (case dt col of Inl e \<Rightarrow> Inl e | Inr tcol \<Rightarrow>
        (let df_p = select_rows (map (\<lambda>c. label c = p) tcol) data;
             df_p = setitem_scalar ''Period'' (Str p) df_p
         in (case getitem df_p ''Timestamp'' of Inl e \<Rightarrow> Inl e | Inr col' \<Rightarrow>
            (case dt col' of Inl e \<Rightarrow> Inl e | Inr tcol' \<Rightarrow>
               Inr (setitem ''AlignedX'' (map align tcol') df_p))))))"

fun compare_loop ::
  "(cell option \<Rightarrow> string) \<Rightarrow> (cell option \<Rightarrow> cell option) \<Rightarrow> frame \<Rightarrow> string list \<Rightarrow> frame
     \<Rightarrow> error + frame"
where
  "compare_loop label align data [] final_df = Inr final_df"
| "compare_loop label align data (p # ps) final_df =
     (case tag_period label align data p of Inl e \<Rightarrow> Inl e
      | Inr df_p \<Rightarrow> compare_loop label align data ps (concat_frames final_df df_p))"

text \<open>Comparing a column with a timestamp: TypeError unless the column holds timestamps.\<close>

definition compare_stamps :: "(timestamp \<Rightarrow> bool) \<Rightarrow> cell option list \<Rightarrow> error + bool list" where
  "compare_stamps p col =
     (if list_all datetimelike col
      then Inr (map (\<lambda>c. case c of Some (Stamp t) \<Rightarrow> p t | _ \<Rightarrow> False) col)
      else Inl TypeError)"

definition arrow :: string where
  "arrow = [CHR 0xE2, CHR 0x86, CHR 0x92]"

definition range_label :: "date \<Rightarrow> date \<Rightarrow> string" where
  "range_label base_start base_end = str_date base_start @ '' '' @ arrow @ '' '' @ str_date base_end"

definition build_comparison_df ::
  "frame \<Rightarrow> string \<Rightarrow> date \<times> date \<Rightarrow> string list \<Rightarrow> string list \<Rightarrow> error + frame \<times> plot"
where
  "build_comparison_df data selected_var date_range months weeks =
     (case date_range of (base_start, base_end) \<Rightarrow>
      if months \<noteq> [] then
        (case compare_loop to_period_M_str dt_day data months empty_frame of Inl e \<Rightarrow> Inl e
         | Inr final_df \<Rightarrow>
           (case px_line final_df ''AlignedX'' selected_var ''Period'' of Inl e \<Rightarrow> Inl e
            | Inr trend_plot \<Rightarrow>
                Inr (final_df, trend_plot\<lparr>xaxis_title := Some ''Day of Month''\<rparr>)))
      else if weeks \<noteq> [] then
        (case compare_loop to_period_W_str dt_weekday data weeks empty_frame of Inl e \<Rightarrow> Inl e
         | Inr final_df \<Rightarrow>
           (case px_line final_df ''AlignedX'' selected_var ''Period'' of Inl e \<Rightarrow> Inl e
            | Inr trend_plot \<Rightarrow>
                Inr (final_df, trend_plot\<lparr>xaxis_title := Some ''Day of Week''\<rparr>)))
      else
        (case getitem data ''Timestamp'' of Inl e \<Rightarrow> Inl e | Inr col \<Rightarrow>
        (case compare_stamps (\<lambda>t. to_datetime base_start \<le> t) col of
           Inl e \<Rightarrow> Inl e | Inr ge \<Rightarrow>
        (case compare_stamps (\<lambda>t. t \<le> to_datetime base_end) col of
           Inl e \<Rightarrow> Inl e | Inr le \<Rightarrow>
           (let keep = map (\<lambda>(a, b). a \<and> b) (zip ge le);
                final_df = select_rows keep data;
                final_df = setitem_scalar ''Period'' (Str (range_label base_start base_end))
                             final_df
            in (case px_line final_df ''Timestamp'' selected_var ''Period'' of Inl e \<Rightarrow> Inl e
                | Inr trend_plot \<Rightarrow> Inr (final_df, trend_plot)))))))"

section \<open>render_kpis\<close>

text \<open>
  The four headline values. \<open>mean\<close>, \<open>max\<close> and \<open>min\<close> skip missing values and are
  NaN (\<open>None\<close>) when nothing is left; on a column that holds text they raise TypeError.
  The model raises TypeError on a column of timestamps as well: such a column is not a
  variable (\<open>render_sidebar\<close> offers the columns after the first).
\<close>

fun numeric :: "cell option list \<Rightarrow> error + rat list" where
  "numeric [] = Inr []"
| "numeric (None # cs) = numeric cs"
| "numeric (Some (Num v) # cs) = (case numeric cs of Inl e \<Rightarrow> Inl e | Inr vs \<Rightarrow> Inr (v # vs))"
| "numeric (Some (Str s) # cs) = Inl TypeError"
| "numeric (Some (Stamp t) # cs) = Inl TypeError"

definition mean :: "rat list \<Rightarrow> rat option" where
  "mean vs = (if vs = [] then None else Some (sum_list vs / of_nat (length vs)))"

definition maximum :: "rat list \<Rightarrow> rat option" where
  "maximum vs = (if vs = [] then None else Some (fold max (tl vs) (hd vs)))"

definition minimum :: "rat list \<Rightarrow> rat option" where
  "minimum vs = (if vs = [] then None else Some (fold min (tl vs) (hd vs)))"

text \<open>
  \<open>idxmax\<close>: the index label of the first row that holds the greatest value; ValueError
  when the column has no value: an empty column, or one in which every value is missing
  (there pandas 2 only fails one step later, in \<open>df.loc\<close>, with KeyError).
\<close>

fun first_max :: "(nat \<times> rat) list \<Rightarrow> (nat \<times> rat) \<Rightarrow> nat" where
  "first_max [] best = fst best"
| "first_max (p # ps) best = first_max ps (if snd best < snd p then p else best)"

definition labelled :: "frame \<Rightarrow> string \<Rightarrow> (nat \<times> rat) list" where
  "labelled df c =
     concat (map (\<lambda>r. case cell_at r c of Some (Num v) \<Rightarrow> [(idx r, v)] | _ \<Rightarrow> []) (rows df))"

definition idxmax :: "frame \<Rightarrow> string \<Rightarrow> error + nat" where
  "idxmax df c = (case labelled df c of [] \<Rightarrow> Inl ValueError | p # ps \<Rightarrow> Inr (first_max ps p))"

text \<open>\<open>df.loc[label, c]\<close>: the values of column \<open>c\<close> in the rows that carry the label.\<close>

definition loc :: "frame \<Rightarrow> nat \<Rightarrow> string \<Rightarrow> error + cell option list" where
  "loc df label c =
     (if c \<in> set (columns df) \<and> label \<in> idx ` set (rows df)
      then Inr (map (\<lambda>r. cell_at r c) (filter (\<lambda>r. idx r = label) (rows df)))
      else Inl KeyError)"

datatype peak = PeakAt "cell option list" | Aligned

record kpis =
  average :: "rat option"
  maximum_value :: "rat option"
  baseload :: "rat option"
  peak_occurred_at :: peak

definition render_kpis :: "frame \<Rightarrow> string \<Rightarrow> error + kpis" where
  "render_kpis df selected_var =
     (case getitem df selected_var of Inl e \<Rightarrow> Inl e | Inr col \<Rightarrow>
     (case numeric col of Inl e \<Rightarrow> Inl e | Inr vs \<Rightarrow>
        (let avg_val = mean vs; max_val = maximum vs; min_val = minimum vs
         in (case (if ''Timestamp'' \<in> set (columns df)
                   then (case idxmax df selected_var of Inl e \<Rightarrow> Inl e
                         | Inr label \<Rightarrow>
                           (case loc df label ''Timestamp'' of Inl e \<Rightarrow> Inl e
                            | Inr ts \<Rightarrow> Inr (PeakAt ts)))
                   else Inr Aligned)
             of Inl e \<Rightarrow> Inl e
              | Inr peak_time \<Rightarrow>
                  Inr \<lparr>average = avg_val, maximum_value = max_val, baseload = min_val,
                       peak_occurred_at = peak_time\<rparr>))))"

section \<open>The totals per period\<close>

text \<open>
  \<open>final_df.groupby("Period")[selected_var].sum().reset_index()\<close>. \<open>groupby\<close> is
  called with its defaults, so the group keys are the distinct values of \<open>Period\<close> in
  ascending order, and rows with no \<open>Period\<close> are left out. \<open>sum\<close> skips missing
  values, adds numbers and joins text. The \<open>Period\<close> column holds text (it is written by
  \<open>build_comparison_df\<close>); keys of another type are not modelled and give TypeError.
\<close>

fun period_keys :: "cell option list \<Rightarrow> error + string list" where
  "period_keys [] = Inr []"
| "period_keys (None # cs) = period_keys cs"
| "period_keys (Some (Str s) # cs) =
     (case period_keys cs of Inl e \<Rightarrow> Inl e | Inr ks \<Rightarrow> Inr (s # ks))"
| "period_keys (Some (Num v) # cs) = Inl TypeError"
| "period_keys (Some (Stamp t) # cs) = Inl TypeError"

fun texts :: "cell option list \<Rightarrow> error + string list" where
  "texts [] = Inr []"
| "texts (None # cs) = texts cs"
| "texts (Some (Str s) # cs) = (case texts cs of Inl e \<Rightarrow> Inl e | Inr ss \<Rightarrow> Inr (s # ss))"
| "texts (Some (Num v) # cs) = Inl TypeError"
| "texts (Some (Stamp t) # cs) = Inl TypeError"

definition sum_cells :: "cell option list \<Rightarrow> error + cell" where
  "sum_cells col =
     (case numeric col of Inr vs \<Rightarrow> Inr (Num (sum_list vs))
      | Inl e \<Rightarrow> (case texts col of Inr ss \<Rightarrow> Inr (Str (concat ss)) | Inl e' \<Rightarrow> Inl e'))"

definition group_rows :: "frame \<Rightarrow> string \<Rightarrow> row list" where
  "group_rows df k = filter (\<lambda>r. cell_at r ''Period'' = Some (Str k)) (rows df)"

fun group_sums :: "frame \<Rightarrow> string \<Rightarrow> string list \<Rightarrow> error + (string \<times> cell) list" where
  "group_sums df c [] = Inr []"
| "group_sums df c (k # ks) =
     (case sum_cells (map (\<lambda>r. cell_at r c) (group_rows df k)) of Inl e \<Rightarrow> Inl e
      | Inr s \<Rightarrow> (case group_sums df c ks of Inl e \<Rightarrow> Inl e | Inr rest \<Rightarrow> Inr ((k, s) # rest)))"

definition reset_index :: "string \<Rightarrow> (string \<times> cell) list \<Rightarrow> frame" where
  "reset_index c grouped =
     \<lparr>columns = [''Period'', c],
      rows = map (\<lambda>(i, (k, s)). \<lparr>idx = i, cells = [(''Period'', Str k), (c, s)]\<rparr>)
               (zip [0..<length grouped] grouped)\<rparr>"

definition totals :: "frame \<Rightarrow> string \<Rightarrow> error + frame" where
  "totals final_df selected_var =
     (case getitem final_df ''Period'' of Inl e \<Rightarrow> Inl e | Inr pcol \<Rightarrow>
     (case getitem final_df selected_var of Inl e \<Rightarrow> Inl e | Inr col \<Rightarrow>
     (case period_keys pcol of Inl e \<Rightarrow> Inl e | Inr ks \<Rightarrow>
     (case group_sums final_df selected_var (sort (remdups ks)) of Inl e \<Rightarrow> Inl e
      | Inr grouped \<Rightarrow>
          (if selected_var = ''Period'' then Inl ValueError
           else Inr (reset_index selected_var grouped))))))"

section \<open>render_sidebar\<close>

text \<open>
  What the user and the framework supply on one run of the page: the uploaded file, given
  as what \<open>pd.read_csv\<close> makes of it (a frame, or the error it raises), and the answer
  of each widget to the options it is offered. \<open>st.date_input\<close> with a pair as default
  returns a tuple of up to two dates; the source also handles a single date.
  The session state holds the table under \<open>csv_data\<close> once a file has been read.
\<close>

datatype raw_date = DateTuple "date list" | DateValue date

record ui =
  uploaded_file :: "(error + frame) option"
  selectbox :: "string list \<Rightarrow> string option"
  date_input :: "date \<Rightarrow> date \<Rightarrow> raw_date"
  multiselect_months :: "string list \<Rightarrow> string list"
  multiselect_weeks :: "string list \<Rightarrow> string list"

record session =
  csv_data :: "frame option"
  app_mode :: "string option"

text \<open>
  \<open>pd.to_datetime\<close> on a column: a missing value stays missing (NaT), every other value
  is converted by pandas or the call raises. The conversion of one value is a parameter.
\<close>

fun to_datetime_col ::
  "(cell \<Rightarrow> error + timestamp) \<Rightarrow> cell option list \<Rightarrow> error + cell option list"
where
  "to_datetime_col parse [] = Inr []"
| "to_datetime_col parse (None # cs) =
     (case to_datetime_col parse cs of Inl e \<Rightarrow> Inl e | Inr ts \<Rightarrow> Inr (None # ts))"
| "to_datetime_col parse (Some c # cs) =
     (case parse c of Inl e \<Rightarrow> Inl e
      | Inr t \<Rightarrow> (case to_datetime_col parse cs of Inl e \<Rightarrow> Inl e
                 | Inr ts \<Rightarrow> Inr (Some (Stamp t) # ts)))"

definition stamps :: "cell option list \<Rightarrow> timestamp list" where
  "stamps col = concat (map (\<lambda>c. case c of Some (Stamp t) \<Rightarrow> [t] | _ \<Rightarrow> []) col)"

fun normalize_date :: "raw_date \<Rightarrow> error + date \<times> date" where
  "normalize_date (DateTuple [a, b]) = Inr (a, b)"
| "normalize_date (DateTuple []) = Inl IndexError"
| "normalize_date (DateTuple (a # rest)) = Inr (a, a)"
| "normalize_date (DateValue d) = Inr (d, d)"

type_synonym sidebar_out = "frame \<times> string option \<times> (date \<times> date) \<times> string list \<times> string list"

text \<open>
  The result is the session state the run leaves behind, with what the function
  returns or raises. A column with no timestamp at all has NaT as its minimum and its
  maximum, and the date picker cannot be built over them: \<open>DateInputError\<close> stands for
  the exception that ends the run there.
\<close>

definition render_sidebar ::
  "(cell \<Rightarrow> error + timestamp) \<Rightarrow> ui \<Rightarrow> session \<Rightarrow> session \<times> (error + sidebar_out option)"
where
  "render_sidebar parse u s =
     (case (case uploaded_file u of None \<Rightarrow> Inr s
            | Some (Inl e) \<Rightarrow> Inl e
            | Some (Inr df) \<Rightarrow> Inr (s\<lparr>csv_data := Some df\<rparr>))
      of Inl e \<Rightarrow> (s, Inl e)
       | Inr s1 \<Rightarrow>
         (case csv_data s1 of None \<Rightarrow> (s1, Inr None)
          | Some data \<Rightarrow>
            (case getitem data ''Timestamp'' of Inl e \<Rightarrow> (s1, Inl e) | Inr col \<Rightarrow>
            (case to_datetime_col parse col of Inl e \<Rightarrow> (s1, Inl e) | Inr tcol \<Rightarrow>
               (let data = setitem ''Timestamp'' tcol data;
                    s2 = s1\<lparr>csv_data := Some data\<rparr>;
                    variables = tl (columns data);
                    selected_var = selectbox u variables
                in (case stamps tcol of [] \<Rightarrow> (s2, Inl DateInputError)
                    | t # ts \<Rightarrow>
                      (let min_date = date_of (fold min ts t);
                           max_date = date_of (fold max ts t);
                           raw_date = date_input u min_date max_date
                       in (case normalize_date raw_date of Inl e \<Rightarrow> (s2, Inl e)
                           | Inr (base_start, base_end) \<Rightarrow>
                             (let month_options = remdups (map to_period_M_str tcol);
                                  compare_months = multiselect_months u month_options;
                                  week_options = remdups (map to_period_W_str tcol);
                                  compare_weeks = multiselect_weeks u week_options
                              in (s2, Inr (Some (data, selected_var, (base_start, base_end),
                                                 compare_months, compare_weeks))))))))))))"

section \<open>dashboard\<close>

text \<open>
  One run of the dashboard page from \<open>render_sidebar\<close> on, with neither navigation
  button pressed. No call is guarded: an error raised by a step ends the run. With no
  variable to choose from, \<open>selected_var\<close> is \<open>None\<close>, the chart is built without a
  y column and \<open>render_kpis\<close> raises KeyError on \<open>df[None]\<close>.
\<close>

datatype view = UploadWarning | Page kpis frame plot frame plot

definition dashboard ::
  "(cell \<Rightarrow> error + timestamp) \<Rightarrow> ui \<Rightarrow> session \<Rightarrow> session \<times> (error + view)"
where
  "dashboard parse u s =
     (case render_sidebar parse u s of
        (s', Inl e) \<Rightarrow> (s', Inl e)
      | (s', Inr None) \<Rightarrow> (s', Inr UploadWarning)
      | (s', Inr (Some (data, None, date_range, months, weeks))) \<Rightarrow> (s', Inl KeyError)
      | (s', Inr (Some (data, Some selected_var, date_range, months, weeks))) \<Rightarrow>
          (s', (case build_comparison_df data selected_var date_range months weeks of
                  Inl e \<Rightarrow> Inl e
                | Inr (final_df, trend_plot) \<Rightarrow>
                  (case render_kpis final_df selected_var of Inl e \<Rightarrow> Inl e | Inr k \<Rightarrow>
                  (case totals final_df selected_var of Inl e \<Rightarrow> Inl e | Inr tot \<Rightarrow>
                  (case px_bar tot ''Period'' selected_var of Inl e \<Rightarrow> Inl e
                   | Inr fig_tot \<Rightarrow> Inr (Page k final_df trend_plot tot fig_tot)))))))"

section \<open>build_comparison_df on a store of frames\<close>

text \<open>
  Python passes frames by reference. Here the frames live in a store, a list indexed by
  address; \<open>data[mask]\<close>, \<open>pd.concat\<close>, \<open>pd.DataFrame()\<close> and \<open>.copy()\<close> allocate a new
  frame, and \<open>df[c] = ...\<close> writes to the frame that \<open>df\<close> refers to. The functions
  return the store they leave behind, also when they raise.
\<close>

type_synonym addr = nat
type_synonym store = "frame list"

definition alloc :: "store \<Rightarrow> frame \<Rightarrow> store \<times> addr" where
  "alloc h f = (h @ [f], length h)"

definition tag_period_store ::
  "(cell option \<Rightarrow> string) \<Rightarrow> (cell option \<Rightarrow> cell option) \<Rightarrow> store \<Rightarrow> addr \<Rightarrow> string
     \<Rightarrow> store \<times> (error + addr)"
where
  "tag_period_store label align h data p =
     (case getitem (h ! data) ''Timestamp'' of Inl e \<Rightarrow> (h, Inl e) | Inr col \<Rightarrow>
     (case dt col of Inl e \<Rightarrow> (h, Inl e) | Inr tcol \<Rightarrow>
     (case alloc h (select_rows (map (\<lambda>c. label c = p) tcol) (h ! data)) of (h1, df_p) \<Rightarrow>
        (let h2 = h1[df_p := setitem_scalar ''Period'' (Str p) (h1 ! df_p)]
         in (case getitem (h2 ! df_p) ''Timestamp'' of Inl e \<Rightarrow> (h2, Inl e) | Inr col' \<Rightarrow>
            (case dt col' of Inl e \<Rightarrow> (h2, Inl e) | Inr tcol' \<Rightarrow>
               (h2[df_p := setitem ''AlignedX'' (map align tcol') (h2 ! df_p)], Inr df_p)))))))"

fun compare_loop_store ::
  "(cell option \<Rightarrow> string) \<Rightarrow> (cell option \<Rightarrow> cell option) \<Rightarrow> store \<Rightarrow> addr \<Rightarrow> string list
     \<Rightarrow> addr \<Rightarrow> store \<times> (error + addr)"
where
  "compare_loop_store label align h data [] final_df = (h, Inr final_df)"
| "compare_loop_store label align h data (p # ps) final_df =
     (case tag_period_store label align h data p of
        (h1, Inl e) \<Rightarrow> (h1, Inl e)
      | (h1, Inr df_p) \<Rightarrow>
        (case alloc h1 (concat_frames (h1 ! final_df) (h1 ! df_p)) of (h2, final_df') \<Rightarrow>
           compare_loop_store label align h2 data ps final_df'))"

definition build_comparison_df_store ::
  "store \<Rightarrow> addr \<Rightarrow> string \<Rightarrow> date \<times> date \<Rightarrow> string list \<Rightarrow> string list
     \<Rightarrow> store \<times> (error + addr \<times> plot)"
where
  "build_comparison_df_store h data selected_var date_range months weeks =
     (case date_range of (base_start, base_end) \<Rightarrow>
     (case alloc h empty_frame of (h0, final_df) \<Rightarrow>
      if months \<noteq> [] then
        (case compare_loop_store to_period_M_str dt_day h0 data months final_df of
           (h1, Inl e) \<Rightarrow> (h1, Inl e)
         | (h1, Inr final_df) \<Rightarrow>
           (case px_line (h1 ! final_df) ''AlignedX'' selected_var ''Period'' of
              Inl e \<Rightarrow> (h1, Inl e)
            | Inr trend_plot \<Rightarrow>
                (h1, Inr (final_df, trend_plot\<lparr>xaxis_title := Some ''Day of Month''\<rparr>))))
      else if weeks \<noteq> [] then
        (case compare_loop_store to_period_W_str dt_weekday h0 data weeks final_df of
           (h1, Inl e) \<Rightarrow> (h1, Inl e)
         | (h1, Inr final_df) \<Rightarrow>
           (case px_line (h1 ! final_df) ''AlignedX'' selected_var ''Period'' of
              Inl e \<Rightarrow> (h1, Inl e)
            | Inr trend_plot \<Rightarrow>
                (h1, Inr (final_df, trend_plot\<lparr>xaxis_title := Some ''Day of Week''\<rparr>))))
      else
        (case getitem (h0 ! data) ''Timestamp'' of Inl e \<Rightarrow> (h0, Inl e) | Inr col \<Rightarrow>
        (case compare_stamps (\<lambda>t. to_datetime base_start \<le> t) col of
           Inl e \<Rightarrow> (h0, Inl e) | Inr ge \<Rightarrow>
        (case compare_stamps (\<lambda>t. t \<le> to_datetime base_end) col of
           Inl e \<Rightarrow> (h0, Inl e) | Inr le \<Rightarrow>
        (case alloc h0 (select_rows (map (\<lambda>(a, b). a \<and> b) (zip ge le)) (h0 ! data)) of
           (h1, selected) \<Rightarrow>
        (case alloc h1 (h1 ! selected) of (h2, final_df) \<Rightarrow>
           (let h3 = h2[final_df :=
                         setitem_scalar ''Period'' (Str (range_label base_start base_end))
                           (h2 ! final_df)]
            in (case px_line (h3 ! final_df) ''Timestamp'' selected_var ''Period'' of
                  Inl e \<Rightarrow> (h3, Inl e)
                | Inr trend_plot \<Rightarrow> (h3, Inr (final_df, trend_plot)))))))))))"

section \<open>Notions of the specification\<close>

text \<open>
  A Measurement Table has a \<open>Timestamp\<close> column and every row has a timestamp in it.
\<close>

fun is_stamp :: "cell option \<Rightarrow> bool" where
  "is_stamp (Some (Stamp t)) = True"
| "is_stamp c = False"

definition measurement_table :: "frame \<Rightarrow> bool" where
  "measurement_table df =
     (''Timestamp'' \<in> set (columns df) \<and>
      list_all (\<lambda>r. is_stamp (cell_at r ''Timestamp'')) (rows df))"

text \<open>
  The subset of a comparison period, in the words of the specification: the rows whose
  period label is the selected one, each tagged with \<open>Period\<close> and \<open>AlignedX\<close>.
\<close>

definition tagged :: "(cell option \<Rightarrow> cell option) \<Rightarrow> string \<Rightarrow> row \<Rightarrow> row" where
  "tagged align p r =
     set_cell ''AlignedX'' (align (cell_at r ''Timestamp'')) (set_cell ''Period'' (Some (Str p)) r)"

definition period_subset ::
  "(cell option \<Rightarrow> string) \<Rightarrow> (cell option \<Rightarrow> cell option) \<Rightarrow> frame \<Rightarrow> string \<Rightarrow> row list"
where
  "period_subset label align data p =
     map (tagged align p) (filter (\<lambda>r. label (cell_at r ''Timestamp'') = p) (rows data))"

definition tagged_columns :: "frame \<Rightarrow> string list" where
  "tagged_columns data =
     (let cs = (if ''Period'' \<in> set (columns data) then columns data else columns data @ [''Period''])
      in if ''AlignedX'' \<in> set cs then cs else cs @ [''AlignedX''])"

text \<open>
  What \<open>build_comparison_df\<close> needs of its table to get through: a \<open>Timestamp\<close> column
  of timestamps, some of which may be missing.
\<close>

definition timestamp_column :: "frame \<Rightarrow> bool" where
  "timestamp_column df =
     (''Timestamp'' \<in> set (columns df) \<and>
      list_all datetimelike (map (\<lambda>r. cell_at r ''Timestamp'') (rows df)))"

text \<open>A row is in the date range when its timestamp lies between the two bounds.\<close>

definition in_range :: "timestamp \<Rightarrow> timestamp \<Rightarrow> row \<Rightarrow> bool" where
  "in_range lo hi r =
     (case cell_at r ''Timestamp'' of Some (Stamp t) \<Rightarrow> lo \<le> t \<and> t \<le> hi | _ \<Rightarrow> False)"

definition range_columns :: "frame \<Rightarrow> string list" where
  "range_columns data =
     (if ''Period'' \<in> set (columns data) then columns data else columns data @ [''Period''])"

text \<open>The calendar day of a row, for the rows that have a timestamp.\<close>

definition on_day :: "date \<Rightarrow> row \<Rightarrow> bool" where
  "on_day d r = (case cell_at r ''Timestamp'' of Some (Stamp t) \<Rightarrow> date_of t = d | _ \<Rightarrow> False)"

text \<open>The numbers of a column and the total of a variable over one period.\<close>

definition numbers :: "cell option list \<Rightarrow> rat list" where
  "numbers col = concat (map (\<lambda>c. case c of Some (Num v) \<Rightarrow> [v] | _ \<Rightarrow> []) col)"

definition period_total :: "frame \<Rightarrow> string \<Rightarrow> string \<Rightarrow> rat" where
  "period_total df c k = sum_list (numbers (map (\<lambda>r. cell_at r c) (group_rows df k)))"

fun is_number :: "cell option \<Rightarrow> bool" where
  "is_number (Some (Num v)) = True"
| "is_number c = False"

fun is_text :: "cell option \<Rightarrow> bool" where
  "is_text (Some (Str s)) = True"
| "is_text c = False"

text \<open>A numeric variable: a column with a number in every row.\<close>

definition numeric_column :: "frame \<Rightarrow> string \<Rightarrow> bool" where
  "numeric_column df c =
     (c \<in> set (columns df) \<and> list_all (\<lambda>r. is_number (cell_at r c)) (rows df))"

text \<open>An aligned table: every row carries a \<open>Period\<close> label.\<close>

definition text_periods :: "frame \<Rightarrow> bool" where
  "text_periods df =
     (''Period'' \<in> set (columns df) \<and> list_all (\<lambda>r. is_text (cell_at r ''Period'')) (rows df))"

definition period_labels :: "frame \<Rightarrow> string list" where
  "period_labels df =
     concat (map (\<lambda>r. case cell_at r ''Period'' of Some (Str s) \<Rightarrow> [s] | _ \<Rightarrow> []) (rows df))"

section \<open>Sample tables\<close>

text \<open>
  Three readings: 1970-01-01 00:00, 1970-02-01 10:00 (a Sunday) and 1970-01-01 10:00.
\<close>

definition reading_jan_midnight :: row where
  "reading_jan_midnight = \<lparr>idx = 0, cells = [(''Timestamp'', Stamp 0), (''kWh'', Num 10)]\<rparr>"

definition reading_feb :: row where
  "reading_feb = \<lparr>idx = 1, cells = [(''Timestamp'', Stamp 2714400000000000), (''kWh'', Num 20)]\<rparr>"

definition reading_jan_morning :: row where
  "reading_jan_morning = \<lparr>idx = 2, cells = [(''Timestamp'', Stamp 36000000000000), (''kWh'', Num 5)]\<rparr>"

definition sample_table :: frame where
  "sample_table =
     \<lparr>columns = [''Timestamp'', ''kWh''],
      rows = [reading_jan_midnight, reading_feb, reading_jan_morning]\<rparr>"

text \<open>The days of the timestamps of a table, in row order.\<close>

definition row_dates :: "frame \<Rightarrow> date list" where
  "row_dates df = map date_of (stamps (map (\<lambda>r. cell_at r ''Timestamp'') (rows df)))"

text \<open>
  Answers of the widgets: the first variable offered, the whole range offered, one given
  day as both ends, and nothing selected.
\<close>

definition first_option :: "string list \<Rightarrow> string option" where
  "first_option opts = (case opts of [] \<Rightarrow> None | v # vs \<Rightarrow> Some v)"

definition whole_range :: "date \<Rightarrow> date \<Rightarrow> raw_date" where
  "whole_range min_date max_date = DateTuple [min_date, max_date]"

definition single_day :: "date \<Rightarrow> date \<Rightarrow> date \<Rightarrow> raw_date" where
  "single_day d min_date max_date = DateTuple [d, d]"

definition no_selection :: "string list \<Rightarrow> string list" where
  "no_selection opts = []"

text \<open>
  A conversion of single values for the samples: timestamps stay, the text
  \<open>1970-01-01\<close> is read as that day, any other text is refused.
\<close>

definition sample_parse :: "cell \<Rightarrow> error + timestamp" where
  "sample_parse c =
     (case c of Stamp t \<Rightarrow> Inr t
      | Num v \<Rightarrow> Inr (floor v)
      | Str s \<Rightarrow> (if s = ''1970-01-01'' then Inr 0 else Inl ValueError))"

definition no_timestamp_table :: frame where
  "no_timestamp_table =
     \<lparr>columns = [''Time'', ''kWh''],
      rows = [\<lparr>idx = 0, cells = [(''Time'', Str ''1970-01-01''), (''kWh'', Num 1)]\<rparr>]\<rparr>"

definition unparsable_table :: frame where
  "unparsable_table =
     \<lparr>columns = [''Timestamp'', ''kWh''],
      rows = [\<lparr>idx = 0, cells = [(''Timestamp'', Str ''1970-01-01''), (''kWh'', Num 1)]\<rparr>,
              \<lparr>idx = 1, cells = [(''Timestamp'', Str ''yesterday''), (''kWh'', Num 2)]\<rparr>]\<rparr>"

definition loaded_session :: session where
  "loaded_session = \<lparr>csv_data = Some sample_table, app_mode = Some ''dashboard''\<rparr>"

definition upload :: "frame \<Rightarrow> ui" where
  "upload df =
     \<lparr>uploaded_file = Some (Inr df), selectbox = first_option, date_input = whole_range,
      multiselect_months = no_selection, multiselect_weeks = no_selection\<rparr>"

definition pick_day :: "date \<Rightarrow> ui" where
  "pick_day d =
     \<lparr>uploaded_file = None, selectbox = first_option, date_input = single_day d,
      multiselect_months = no_selection, multiselect_weeks = no_selection\<rparr>"

text \<open>
  A run in which the variable handed on is a given name, whatever the selection box was
  offered; the framework itself answers with one of the options.
\<close>

definition ask_for :: "string \<Rightarrow> string list \<Rightarrow> string option" where
  "ask_for v opts = Some v"

definition pick_variable :: "string \<Rightarrow> ui" where
  "pick_variable v =
     \<lparr>uploaded_file = None, selectbox = ask_for v, date_input = whole_range,
      multiselect_months = no_selection, multiselect_weeks = no_selection\<rparr>"

text \<open>The distinct \<open>Period\<close> labels of a table in ascending order.\<close>

definition period_order :: "frame \<Rightarrow> string list" where
  "period_order df = sort (remdups (period_labels df))"

text \<open>
  The aligned table of the sample table for February selected before January.
\<close>

definition feb_then_jan :: frame where
  "feb_then_jan =
     \<lparr>columns = [''Timestamp'', ''kWh'', ''Period'', ''AlignedX''],
      rows = [\<lparr>idx = 1, cells = [(''Timestamp'', Stamp 2714400000000000), (''kWh'', Num 20),
                                 (''Period'', Str ''1970-02''), (''AlignedX'', Num 1)]\<rparr>,
              \<lparr>idx = 0, cells = [(''Timestamp'', Stamp 0), (''kWh'', Num 10),
                                 (''Period'', Str ''1970-01''), (''AlignedX'', Num 1)]\<rparr>,
              \<lparr>idx = 2, cells = [(''Timestamp'', Stamp 36000000000000), (''kWh'', Num 5),
                                 (''Period'', Str ''1970-01''), (''AlignedX'', Num 1)]\<rparr>]\<rparr>"

section \<open>Calendar facts\<close>

lemmas sample_defs =
  sample_table_def reading_jan_midnight_def reading_feb_def reading_jan_morning_def

lemma sample_table_measurement: "measurement_table sample_table"
  by (simp add: measurement_table_def sample_defs cell_at_def)





section \<open>Frame operations\<close>

lemma select_map: "map snd (filter fst (zip (map f xs) xs)) = filter f xs"
  by (induction xs) auto

lemma zip_map_self: "map (\<lambda>(v, r). g v r) (zip (map f xs) xs) = map (\<lambda>r. g (f r) r) xs"
  by (induction xs) auto

lemma zip_replicate_self:
  "map (\<lambda>(v, r). g v r) (zip (replicate (length xs) v) xs) = map (g v) xs"
  by (induction xs) auto

lemma zip_map_and:
  "map (\<lambda>(a, b). a \<and> b) (zip (map f xs) (map g xs)) = map (\<lambda>x. f x \<and> g x) xs"
  by (induction xs) auto

lemma cell_at_set_cell: "cell_at (set_cell c v r) c' = (if c' = c then v else cell_at r c')"
  by (cases v) (simp_all add: cell_at_def set_cell_def update_conv' delete_conv')


lemma rows_select_rows: "rows (select_rows (map f (rows df)) df) = filter f (rows df)"
  by (simp add: select_rows_def select_map)

lemma rows_setitem_scalar: "rows (setitem_scalar c v df) = map (set_cell c (Some v)) (rows df)"
  by (simp add: setitem_scalar_def setitem_def zip_replicate_self)

lemma rows_setitem_map:
  "rows (setitem c (map f (rows df)) df) = map (\<lambda>r. set_cell c (f r) r) (rows df)"
  by (simp add: setitem_def zip_map_self)


lemma in_tagged_columns:
  "''Period'' \<in> set (tagged_columns data)"
  "''AlignedX'' \<in> set (tagged_columns data)"
  "c \<in> set (columns data) \<Longrightarrow> c \<in> set (tagged_columns data)"
  by (auto simp: tagged_columns_def Let_def)

lemma is_stampD: "is_stamp c \<Longrightarrow> \<exists>t. c = Some (Stamp t)"
  by (cases c rule: is_stamp.cases) simp_all

lemma is_numberD: "is_number c \<Longrightarrow> \<exists>v. c = Some (Num v)"
  by (cases c rule: is_number.cases) simp_all

lemma is_textD: "is_text c \<Longrightarrow> \<exists>s. c = Some (Str s)"
  by (cases c rule: is_text.cases) simp_all

lemma measurement_table_stamp:
  "measurement_table df \<Longrightarrow> r \<in> set (rows df) \<Longrightarrow> \<exists>t. cell_at r ''Timestamp'' = Some (Stamp t)"
  unfolding measurement_table_def list_all_iff
  by (blast dest: is_stampD)

lemma measurement_table_column: "measurement_table df \<Longrightarrow> timestamp_column df"
proof -
  assume m: "measurement_table df"
  have "datetimelike (cell_at r ''Timestamp'')" if "r \<in> set (rows df)" for r
    using measurement_table_stamp[OF m that] by auto
  then show ?thesis
    using m by (simp add: timestamp_column_def measurement_table_def list_all_iff)
qed

section \<open>The comparison loop\<close>

lemma tag_period_ok:
  assumes "timestamp_column data"
  shows "tag_period label align data p =
           Inr \<lparr>columns = tagged_columns data, rows = period_subset label align data p\<rparr>"
proof -
  let ?ts = "\<lambda>r. cell_at r ''Timestamp''"
  let ?keep = "\<lambda>r. label (cell_at r ''Timestamp'') = p"
  let ?sel = "select_rows (map ?keep (rows data)) data"
  let ?df = "setitem_scalar ''Period'' (Str p) ?sel"
  let ?out = "setitem ''AlignedX'' (map (\<lambda>r. align (cell_at r ''Timestamp'')) (rows ?df)) ?df"
  have rows_df: "rows ?df = map (set_cell ''Period'' (Some (Str p))) (filter ?keep (rows data))"
    by (simp add: rows_setitem_scalar rows_select_rows)
  have col_df: "map ?ts (rows ?df) = map ?ts (filter ?keep (rows data))"
    unfolding rows_df by (simp add: cell_at_set_cell)
  have cols_df: "''Timestamp'' \<in> set (columns ?df)"
    using assms by (simp add: timestamp_column_def setitem_scalar_def setitem_def select_rows_def)
  have dtl: "list_all datetimelike (map ?ts (rows ?df))"
    using assms unfolding col_df timestamp_column_def by (simp add: list_all_iff)
  have g1: "getitem data ''Timestamp'' = Inr (map ?ts (rows data))"
    using assms by (simp add: getitem_def timestamp_column_def)
  have d1: "dt (map ?ts (rows data)) = Inr (map ?ts (rows data))"
    using assms by (simp add: dt_def timestamp_column_def)
  have g2: "getitem ?df ''Timestamp'' = Inr (map ?ts (rows ?df))"
    using cols_df by (simp add: getitem_def)
  have d2: "dt (map ?ts (rows ?df)) = Inr (map ?ts (rows ?df))"
    using dtl by (simp add: dt_def)
  have "rows ?out = map (\<lambda>r. set_cell ''AlignedX'' (align (cell_at r ''Timestamp'')) r) (rows ?df)"
    by (rule rows_setitem_map)
  also have "\<dots> = period_subset label align data p"
    unfolding rows_df by (simp add: period_subset_def tagged_def cell_at_set_cell comp_def)
  finally have r: "rows ?out = period_subset label align data p" .
  have c: "columns ?out = tagged_columns data"
    by (simp add: setitem_def setitem_scalar_def select_rows_def tagged_columns_def Let_def)
  have fin: "?out = \<lparr>columns = tagged_columns data, rows = period_subset label align data p\<rparr>"
    using r c by (cases ?out) simp
  show ?thesis
    unfolding tag_period_def g1 d1 sum.case Let_def map_map comp_def g2 d2 fin ..
qed

lemma tag_period_err:
  assumes "\<not> timestamp_column data"
  shows "\<exists>e. tag_period label align data p = Inl e"
  using assms by (auto simp: tag_period_def timestamp_column_def getitem_def dt_def)

lemma compare_loop_ok:
  assumes "timestamp_column data"
  shows "compare_loop label align data ps acc =
           Inr \<lparr>columns = (if ps = [] then columns acc
                            else columns acc @
                                 filter (\<lambda>c. c \<notin> set (columns acc)) (tagged_columns data)),
                rows = rows acc @ concat (map (period_subset label align data) ps)\<rparr>"
proof (induction ps arbitrary: acc)
  case Nil
  show ?case by simp
next
  case (Cons p ps)
  let ?t = "\<lparr>columns = tagged_columns data, rows = period_subset label align data p\<rparr>"
  have step: "compare_loop label align data (p # ps) acc
                = compare_loop label align data ps (concat_frames acc ?t)"
    by (simp add: tag_period_ok[OF assms])
  have cols: "columns (concat_frames acc ?t) @
                filter (\<lambda>c. c \<notin> set (columns (concat_frames acc ?t))) (tagged_columns data)
              = columns (concat_frames acc ?t)"
    by (simp add: concat_frames_def filter_empty_conv)
  show ?case
    unfolding step Cons.IH
    by (cases "ps = []") (simp_all add: cols, simp_all add: concat_frames_def)
qed

lemma build_months:
  assumes "timestamp_column data" "months \<noteq> []"
  shows "build_comparison_df data v dr months weeks =
           (if v \<in> set (tagged_columns data)
            then Inr (\<lparr>columns = tagged_columns data,
                       rows = concat (map (period_subset to_period_M_str dt_day data) months)\<rparr>,
                      \<lparr>x_col = ''AlignedX'', y_col = v, color_col = Some ''Period'',
                       xaxis_title = Some ''Day of Month''\<rparr>)
            else Inl ValueError)"
  using assms(2)
  by (cases dr)
     (simp add: build_comparison_df_def compare_loop_ok[OF assms(1)] empty_frame_def px_line_def
        in_tagged_columns)

lemma build_weeks:
  assumes "timestamp_column data" "weeks \<noteq> []"
  shows "build_comparison_df data v dr [] weeks =
           (if v \<in> set (tagged_columns data)
            then Inr (\<lparr>columns = tagged_columns data,
                       rows = concat (map (period_subset to_period_W_str dt_weekday data) weeks)\<rparr>,
                      \<lparr>x_col = ''AlignedX'', y_col = v, color_col = Some ''Period'',
                       xaxis_title = Some ''Day of Week''\<rparr>)
            else Inl ValueError)"
  using assms(2)
  by (cases dr)
     (simp add: build_comparison_df_def compare_loop_ok[OF assms(1)] empty_frame_def px_line_def
        in_tagged_columns)

lemma in_range_split:
  "((case c of Some (Stamp t) \<Rightarrow> lo \<le> t | _ \<Rightarrow> False) \<and>
    (case c of Some (Stamp t) \<Rightarrow> t \<le> hi | _ \<Rightarrow> False))
   = (case c of Some (Stamp t) \<Rightarrow> lo \<le> t \<and> t \<le> hi | _ \<Rightarrow> False)"
  by (auto split: option.splits cell.splits)

lemma build_range:
  assumes "timestamp_column data"
  shows "build_comparison_df data v (s, e) [] [] =
           (if v \<in> set (range_columns data)
            then Inr (\<lparr>columns = range_columns data,
                       rows = map (set_cell ''Period'' (Some (Str (range_label s e))))
                                (filter (in_range (to_datetime s) (to_datetime e)) (rows data))\<rparr>,
                      \<lparr>x_col = ''Timestamp'', y_col = v, color_col = Some ''Period'',
                       xaxis_title = None\<rparr>)
            else Inl ValueError)"
proof -
  let ?ts = "\<lambda>r. cell_at r ''Timestamp''"
  let ?keep = "in_range (to_datetime s) (to_datetime e)"
  let ?sel = "select_rows (map ?keep (rows data)) data"
  let ?df = "setitem_scalar ''Period'' (Str (range_label s e)) ?sel"
  have g: "getitem data ''Timestamp'' = Inr (map ?ts (rows data))"
    using assms by (simp add: getitem_def timestamp_column_def)
  have c1: "compare_stamps p (map ?ts (rows data))
              = Inr (map (\<lambda>r. case cell_at r ''Timestamp'' of Some (Stamp t) \<Rightarrow> p t | _ \<Rightarrow> False)
                       (rows data))"
    for p
    using assms by (simp add: compare_stamps_def timestamp_column_def comp_def)
  have m: "map (\<lambda>(a, b). a \<and> b)
             (zip (map (\<lambda>r. case cell_at r ''Timestamp'' of
                              Some (Stamp t) \<Rightarrow> to_datetime s \<le> t | _ \<Rightarrow> False) (rows data))
                  (map (\<lambda>r. case cell_at r ''Timestamp'' of
                              Some (Stamp t) \<Rightarrow> t \<le> to_datetime e | _ \<Rightarrow> False) (rows data)))
           = map ?keep (rows data)"
    unfolding zip_map_and in_range_split in_range_def ..
  have df: "?df = \<lparr>columns = range_columns data,
                    rows = map (set_cell ''Period'' (Some (Str (range_label s e))))
                             (filter ?keep (rows data))\<rparr>"
  proof -
    have "rows ?df = map (set_cell ''Period'' (Some (Str (range_label s e))))
                       (filter ?keep (rows data))"
      by (simp add: rows_setitem_scalar rows_select_rows)
    moreover have "columns ?df = range_columns data"
      by (simp add: setitem_scalar_def setitem_def select_rows_def range_columns_def)
    ultimately show ?thesis by (cases ?df) simp
  qed
  have ts: "''Timestamp'' \<in> set (range_columns data)" "''Period'' \<in> set (range_columns data)"
    using assms by (auto simp: range_columns_def timestamp_column_def)
  show ?thesis
    unfolding build_comparison_df_def prod.case g sum.case c1 m Let_def df
    using ts by (simp add: px_line_def)
qed

section \<open>Month comparison\<close>




section \<open>Week comparison\<close>



section \<open>Precedence of the selections\<close>

text \<open>
  C5. \<open>build_comparison_df\<close> looks at the months first, at the weeks only when no month
  is selected and at the date range only when neither is: with a month selected the
  result is the same whatever the weeks and the date range are, and on a Measurement
  Table it is made of the month subsets; with no month and a week selected the result
  is the same whatever the date range is, and is made of the week subsets; with neither
  the rows are those inside the date range.
\<close>

theorem selection_precedence:
  shows "(months \<noteq> [] \<longrightarrow>
            build_comparison_df data selected_var date_range months weeks
              = build_comparison_df data selected_var date_range' months weeks' \<and>
            (measurement_table data \<and> selected_var \<in> set (columns data) \<longrightarrow>
               (\<exists>final_df trend_plot.
                  build_comparison_df data selected_var date_range months weeks
                    = Inr (final_df, trend_plot) \<and>
                  rows final_df
                    = concat (map (period_subset to_period_M_str dt_day data) months)))) \<and>
         (weeks \<noteq> [] \<longrightarrow>
            build_comparison_df data selected_var date_range [] weeks
              = build_comparison_df data selected_var date_range' [] weeks \<and>
            (measurement_table data \<and> selected_var \<in> set (columns data) \<longrightarrow>
               (\<exists>final_df trend_plot.
                  build_comparison_df data selected_var date_range [] weeks
                    = Inr (final_df, trend_plot) \<and>
                  rows final_df
                    = concat (map (period_subset to_period_W_str dt_weekday data) weeks)))) \<and>
         (measurement_table data \<and> selected_var \<in> set (columns data) \<longrightarrow>
            (\<exists>final_df trend_plot.
               build_comparison_df data selected_var (base_start, base_end) [] []
                 = Inr (final_df, trend_plot) \<and>
               rows final_df
                 = map (set_cell ''Period'' (Some (Str (range_label base_start base_end))))
                     (filter (in_range (to_datetime base_start) (to_datetime base_end))
                        (rows data))))"
proof (intro conjI impI)
  assume "months \<noteq> []"
  then show "build_comparison_df data selected_var date_range months weeks
              = build_comparison_df data selected_var date_range' months weeks'"
    by (cases date_range; cases date_range') (simp add: build_comparison_df_def)
next
  assume "months \<noteq> []" and "measurement_table data \<and> selected_var \<in> set (columns data)"
  then show "\<exists>final_df trend_plot.
       build_comparison_df data selected_var date_range months weeks = Inr (final_df, trend_plot) \<and>
       rows final_df = concat (map (period_subset to_period_M_str dt_day data) months)"
    by (simp add: build_months measurement_table_column in_tagged_columns)
next
  assume "weeks \<noteq> []"
  then show "build_comparison_df data selected_var date_range [] weeks
              = build_comparison_df data selected_var date_range' [] weeks"
    by (cases date_range; cases date_range') (simp add: build_comparison_df_def)
next
  assume "weeks \<noteq> []" and "measurement_table data \<and> selected_var \<in> set (columns data)"
  then show "\<exists>final_df trend_plot.
       build_comparison_df data selected_var date_range [] weeks = Inr (final_df, trend_plot) \<and>
       rows final_df = concat (map (period_subset to_period_W_str dt_weekday data) weeks)"
    by (simp add: build_weeks measurement_table_column in_tagged_columns)
next
  assume "measurement_table data \<and> selected_var \<in> set (columns data)"
  then show "\<exists>final_df trend_plot.
       build_comparison_df data selected_var (base_start, base_end) [] [] = Inr (final_df, trend_plot) \<and>
       rows final_df
         = map (set_cell ''Period'' (Some (Str (range_label base_start base_end))))
             (filter (in_range (to_datetime base_start) (to_datetime base_end)) (rows data))"
    by (simp add: build_range measurement_table_column range_columns_def)
qed

text \<open>
  On the sample table with a month, a week and a date range all given: the month decides;
  without the month, the week decides; without both, the date range.
\<close>

theorem selection_precedence_witness:
  "[''1970-02''] \<noteq> [] \<and> [''1970-01-26/1970-02-01''] \<noteq> [] \<and>
   measurement_table sample_table \<and> ''kWh'' \<in> set (columns sample_table) \<and>
   build_comparison_df sample_table ''kWh'' (0, 0) [''1970-02''] [''1970-01-26/1970-02-01'']
     = build_comparison_df sample_table ''kWh'' (5, 9) [''1970-02''] [] \<and>
   (\<exists>final_df trend_plot.
      build_comparison_df sample_table ''kWh'' (0, 0) [''1970-02''] [''1970-01-26/1970-02-01'']
        = Inr (final_df, trend_plot) \<and>
      rows final_df
        = concat (map (period_subset to_period_M_str dt_day sample_table) [''1970-02''])) \<and>
   build_comparison_df sample_table ''kWh'' (0, 0) [] [''1970-01-26/1970-02-01'']
     = build_comparison_df sample_table ''kWh'' (5, 9) [] [''1970-01-26/1970-02-01''] \<and>
   (\<exists>final_df trend_plot.
      build_comparison_df sample_table ''kWh'' (0, 0) [] [''1970-01-26/1970-02-01'']
        = Inr (final_df, trend_plot) \<and>
      rows final_df
        = concat (map (period_subset to_period_W_str dt_weekday sample_table)
                    [''1970-01-26/1970-02-01''])) \<and>
   (\<exists>final_df trend_plot.
      build_comparison_df sample_table ''kWh'' (0, 0) [] [] = Inr (final_df, trend_plot) \<and>
      rows final_df
        = map (set_cell ''Period'' (Some (Str (range_label 0 0))))
            (filter (in_range (to_datetime 0) (to_datetime 0)) (rows sample_table)))"
proof -
  have h1: "[''1970-02''] \<noteq> ([] :: string list)" by simp
  have h2: "[''1970-01-26/1970-02-01''] \<noteq> ([] :: string list)" by simp
  have h3: "measurement_table sample_table"
    by (simp add: measurement_table_def sample_defs cell_at_def)
  have h4: "''kWh'' \<in> set (columns sample_table)" by (simp add: sample_defs)
  note p = selection_precedence[where months = "[''1970-02'']" and data = sample_table
      and selected_var = "''kWh''" and date_range = "(0, 0)"
      and weeks = "[''1970-01-26/1970-02-01'']" and date_range' = "(5, 9)" and weeks' = "[]"
      and base_start = 0 and base_end = 0]
  show ?thesis using h1 h2 h3 h4 p by blast
qed

section \<open>The date range\<close>

text \<open>
  C1, on the sample table. The readings span 1970-01-01 to 1970-02-01 and the range
  1970-01-01 to 1970-02-01 covers those days, but the end of the range is compared as
  1970-02-01 00:00: the reading of 10:00 on the last day is left out, and two of the three
  rows come back.
\<close>

theorem whole_span_range_loses_last_day:
  "measurement_table sample_table \<and> length (rows sample_table) = 3 \<and>
   row_dates sample_table = [0, 31, 0] \<and>
   build_comparison_df sample_table ''kWh'' (0, 31) [] [] =
     Inr (\<lparr>columns = [''Timestamp'', ''kWh'', ''Period''],
           rows = [set_cell ''Period'' (Some (Str (range_label 0 31))) reading_jan_midnight,
                   set_cell ''Period'' (Some (Str (range_label 0 31))) reading_jan_morning]\<rparr>,
          \<lparr>x_col = ''Timestamp'', y_col = ''kWh'', color_col = Some ''Period'',
           xaxis_title = None\<rparr>)"
proof -
  have a: "length (rows sample_table) = 3" by (simp add: sample_table_def)
  have b: "row_dates sample_table = [0, 31, 0]" by code_simp
  have f: "filter (in_range (to_datetime 0) (to_datetime 31)) (rows sample_table)
             = [reading_jan_midnight, reading_jan_morning]"
    by (simp add: in_range_def to_datetime_def ns_per_day_def cell_at_def sample_defs)
  have c: "range_columns sample_table = [''Timestamp'', ''kWh'', ''Period'']"
    by (simp add: range_columns_def sample_table_def)
  have d: "build_comparison_df sample_table ''kWh'' (0, 31) [] [] =
     Inr (\<lparr>columns = [''Timestamp'', ''kWh'', ''Period''],
           rows = [set_cell ''Period'' (Some (Str (range_label 0 31))) reading_jan_midnight,
                   set_cell ''Period'' (Some (Str (range_label 0 31))) reading_jan_morning]\<rparr>,
          \<lparr>x_col = ''Timestamp'', y_col = ''kWh'', color_col = Some ''Period'',
           xaxis_title = None\<rparr>)"
    unfolding build_range[OF measurement_table_column[OF sample_table_measurement]] f c
    by simp
  show ?thesis using sample_table_measurement a b d by (intro conjI)
qed

text \<open>
  C2, on the sample table. Two readings fall on 1970-01-01, at 00:00 and at 10:00. With
  that day as both ends of the range, both bounds are 1970-01-01 00:00 and only the
  reading at midnight comes back.
\<close>

theorem single_day_range_keeps_midnight_only:
  "filter (on_day 0) (rows sample_table) = [reading_jan_midnight, reading_jan_morning] \<and>
   build_comparison_df sample_table ''kWh'' (0, 0) [] [] =
     Inr (\<lparr>columns = [''Timestamp'', ''kWh'', ''Period''],
           rows = [set_cell ''Period'' (Some (Str (range_label 0 0))) reading_jan_midnight]\<rparr>,
          \<lparr>x_col = ''Timestamp'', y_col = ''kWh'', color_col = Some ''Period'',
           xaxis_title = None\<rparr>)"
proof -
  have a: "filter (on_day 0) (rows sample_table) = [reading_jan_midnight, reading_jan_morning]"
    by (simp add: on_day_def date_of_def ns_per_day_def cell_at_def sample_defs)
  have f: "filter (in_range (to_datetime 0) (to_datetime 0)) (rows sample_table)
             = [reading_jan_midnight]"
    by (simp add: in_range_def to_datetime_def ns_per_day_def cell_at_def sample_defs)
  have c: "range_columns sample_table = [''Timestamp'', ''kWh'', ''Period'']"
    by (simp add: range_columns_def sample_table_def)
  have d: "build_comparison_df sample_table ''kWh'' (0, 0) [] [] =
     Inr (\<lparr>columns = [''Timestamp'', ''kWh'', ''Period''],
           rows = [set_cell ''Period'' (Some (Str (range_label 0 0))) reading_jan_midnight]\<rparr>,
          \<lparr>x_col = ''Timestamp'', y_col = ''kWh'', color_col = Some ''Period'',
           xaxis_title = None\<rparr>)"
    unfolding build_range[OF measurement_table_column[OF sample_table_measurement]] f c
    by simp
  show ?thesis using a d by (intro conjI)
qed

section \<open>A variable that is not a column\<close>

lemma build_unknown_variable:
  assumes "timestamp_column data"
      and "selected_var \<notin> set (columns data)"
      and "selected_var \<noteq> ''Period''"
      and "months \<noteq> [] \<or> weeks \<noteq> [] \<longrightarrow> selected_var \<noteq> ''AlignedX''"
  shows "build_comparison_df data selected_var date_range months weeks = Inl ValueError"
proof (cases "months = []")
  case False
  with assms have "selected_var \<notin> set (tagged_columns data)"
    by (auto simp: tagged_columns_def Let_def split: if_splits)
  with False show ?thesis by (simp add: build_months[OF assms(1)])
next
  case months: True
  show ?thesis
  proof (cases "weeks = []")
    case False
    with assms have "selected_var \<notin> set (tagged_columns data)"
      by (auto simp: tagged_columns_def Let_def split: if_splits)
    with False months show ?thesis by (simp add: build_weeks[OF assms(1)])
  next
    case True
    from assms have "selected_var \<notin> set (range_columns data)"
      by (auto simp: range_columns_def split: if_splits)
    with True months show ?thesis
      by (cases date_range) (simp add: build_range[OF assms(1)])
  qed
qed

text \<open>
  C6 as stated fails: \<open>Period\<close> is not a column of the sample table, yet
  \<open>build_comparison_df\<close> returns a table and a chart request for it, because the chart
  is requested on the table that already has the added \<open>Period\<close> column.
\<close>

theorem added_column_accepted_as_variable:
  "''Period'' \<notin> set (columns sample_table) \<and>
   build_comparison_df sample_table ''Period'' (0, 0) [] [] =
     Inr (\<lparr>columns = [''Timestamp'', ''kWh'', ''Period''],
           rows = [set_cell ''Period'' (Some (Str (range_label 0 0))) reading_jan_midnight]\<rparr>,
          \<lparr>x_col = ''Timestamp'', y_col = ''Period'', color_col = Some ''Period'',
           xaxis_title = None\<rparr>)"
proof -
  have a: "''Period'' \<notin> set (columns sample_table)" by (simp add: sample_table_def)
  have f: "filter (in_range (to_datetime 0) (to_datetime 0)) (rows sample_table)
             = [reading_jan_midnight]"
    by (simp add: in_range_def to_datetime_def ns_per_day_def cell_at_def sample_defs)
  have c: "range_columns sample_table = [''Timestamp'', ''kWh'', ''Period'']"
    by (simp add: range_columns_def sample_table_def)
  have d: "build_comparison_df sample_table ''Period'' (0, 0) [] [] =
     Inr (\<lparr>columns = [''Timestamp'', ''kWh'', ''Period''],
           rows = [set_cell ''Period'' (Some (Str (range_label 0 0))) reading_jan_midnight]\<rparr>,
          \<lparr>x_col = ''Timestamp'', y_col = ''Period'', color_col = Some ''Period'',
           xaxis_title = None\<rparr>)"
    unfolding build_range[OF measurement_table_column[OF sample_table_measurement]] f c
    by simp
  show ?thesis using a d by (intro conjI)
qed

text \<open>
  C6, amended. For a Measurement Table and a variable name that is neither a column of
  the table nor a column that \<open>build_comparison_df\<close> adds (\<open>Period\<close> always, \<open>AlignedX\<close>
  when months or weeks are selected), \<open>build_comparison_df\<close> raises ValueError, from the
  chart request, and returns no table; \<open>dashboard\<close> does not handle it, so a run that
  reaches \<open>build_comparison_df\<close> with such a name ends with that error.
\<close>

theorem unknown_variable_rejected:
  assumes "measurement_table data"
      and "selected_var \<notin> set (columns data)"
      and "selected_var \<noteq> ''Period''"
      and "months \<noteq> [] \<or> weeks \<noteq> [] \<longrightarrow> selected_var \<noteq> ''AlignedX''"
  shows "build_comparison_df data selected_var date_range months weeks = Inl ValueError \<and>
         (render_sidebar parse u s
            = (s', Inr (Some (data, Some selected_var, date_range, months, weeks)))
          \<longrightarrow> dashboard parse u s = (s', Inl ValueError))"
proof -
  have b: "build_comparison_df data selected_var date_range months weeks = Inl ValueError"
    using measurement_table_column[OF assms(1)] assms(2-4) by (rule build_unknown_variable)
  then show ?thesis by (simp add: dashboard_def)
qed

lemma sample_run_pick_variable:
  "render_sidebar sample_parse (pick_variable v) loaded_session
     = (loaded_session, Inr (Some (sample_table, Some v, (0, 31), [], [])))"
  by (simp add: render_sidebar_def pick_variable_def loaded_session_def getitem_def cell_at_def
        sample_defs sample_parse_def setitem_def set_cell_def stamps_def date_of_def
        ns_per_day_def ask_for_def whole_range_def no_selection_def Let_def)

text \<open>
  On the sample table with the name \<open>Power\<close>: the chart request is refused and the run
  of the page ends there.
\<close>

theorem unknown_variable_rejected_witness:
  "measurement_table sample_table \<and> ''Power'' \<notin> set (columns sample_table) \<and>
   ''Power'' \<noteq> ''Period'' \<and>
   build_comparison_df sample_table ''Power'' (0, 31) [] [] = Inl ValueError \<and>
   render_sidebar sample_parse (pick_variable ''Power'') loaded_session
     = (loaded_session, Inr (Some (sample_table, Some ''Power'', (0, 31), [], []))) \<and>
   dashboard sample_parse (pick_variable ''Power'') loaded_session
     = (loaded_session, Inl ValueError)"
proof -
  have h2: "''Power'' \<notin> set (columns sample_table)" by (simp add: sample_table_def)
  have h3: "''Power'' \<noteq> ''Period''" by simp
  have h4: "[] \<noteq> ([] :: string list) \<or> [] \<noteq> ([] :: string list) \<longrightarrow> ''Power'' \<noteq> ''AlignedX''"
    by simp
  note run = sample_run_pick_variable[of "''Power''"]
  show ?thesis
    using sample_table_measurement h2 h3 run
      unknown_variable_rejected[OF sample_table_measurement h2 h3 h4,
        of "(0, 31)" sample_parse "pick_variable ''Power''" loaded_session loaded_session]
    by blast
qed

section \<open>An empty selection\<close>

lemma render_kpis_no_rows:
  assumes "rows df = []" and "''Timestamp'' \<in> set (columns df)"
  shows "render_kpis df selected_var
           = Inl (if selected_var \<in> set (columns df) then ValueError else KeyError)"
  using assms by (simp add: render_kpis_def getitem_def idxmax_def labelled_def)

lemma sample_run_pick_day:
  "render_sidebar sample_parse (pick_day d) loaded_session
     = (loaded_session, Inr (Some (sample_table, Some ''kWh'', (d, d), [], [])))"
  by (simp add: render_sidebar_def pick_day_def loaded_session_def getitem_def cell_at_def
        sample_defs sample_parse_def setitem_def set_cell_def stamps_def date_of_def
        ns_per_day_def first_option_def single_day_def no_selection_def Let_def)

lemma sample_day_without_readings:
  "build_comparison_df sample_table ''kWh'' (5, 5) [] [] =
     Inr (\<lparr>columns = [''Timestamp'', ''kWh'', ''Period''], rows = []\<rparr>,
          \<lparr>x_col = ''Timestamp'', y_col = ''kWh'', color_col = Some ''Period'',
           xaxis_title = None\<rparr>)"
proof -
  have f: "filter (in_range (to_datetime 5) (to_datetime 5)) (rows sample_table) = []"
    by (simp add: in_range_def to_datetime_def ns_per_day_def cell_at_def sample_defs)
  have c: "range_columns sample_table = [''Timestamp'', ''kWh'', ''Period'']"
    by (simp add: range_columns_def sample_table_def)
  show ?thesis
    unfolding build_range[OF measurement_table_column[OF sample_table_measurement]] f c
    by simp
qed

text \<open>
  C3 as stated fails: on the sample table the day 1970-01-06 has no reading, the aligned
  table has no row, \<open>render_kpis\<close> raises ValueError and the run of \<open>dashboard\<close> ends
  with that error; no placeholder is shown.
\<close>

theorem empty_selection_ends_the_run:
  "build_comparison_df sample_table ''kWh'' (5, 5) [] [] =
     Inr (\<lparr>columns = [''Timestamp'', ''kWh'', ''Period''], rows = []\<rparr>,
          \<lparr>x_col = ''Timestamp'', y_col = ''kWh'', color_col = Some ''Period'',
           xaxis_title = None\<rparr>) \<and>
   render_kpis \<lparr>columns = [''Timestamp'', ''kWh'', ''Period''], rows = []\<rparr> ''kWh''
     = Inl ValueError \<and>
   dashboard sample_parse (pick_day 5) loaded_session = (loaded_session, Inl ValueError)"
proof -
  have k: "render_kpis \<lparr>columns = [''Timestamp'', ''kWh'', ''Period''], rows = []\<rparr> ''kWh''
             = Inl ValueError"
    by (simp add: render_kpis_no_rows)
  have d: "dashboard sample_parse (pick_day 5) loaded_session = (loaded_session, Inl ValueError)"
    by (simp add: dashboard_def sample_run_pick_day sample_day_without_readings k)
  show ?thesis using sample_day_without_readings k d by (intro conjI)
qed

text \<open>
  C3, amended. For every variable name, \<open>render_kpis\<close> applied to an aligned table with
  no rows (and a \<open>Timestamp\<close> column, which every aligned table has) raises: KeyError
  when the name is not a column, ValueError from \<open>idxmax\<close> on the empty column
  otherwise. \<open>dashboard\<close> has no handler: a run whose aligned table has no rows ends with
  that error.
\<close>

theorem empty_result_raises:
  assumes "rows df = []" and "''Timestamp'' \<in> set (columns df)"
  shows "render_kpis df selected_var
           = Inl (if selected_var \<in> set (columns df) then ValueError else KeyError) \<and>
         (render_sidebar parse u s
            = (s', Inr (Some (data, Some selected_var, date_range, months, weeks))) \<and>
          build_comparison_df data selected_var date_range months weeks = Inr (df, trend_plot)
          \<longrightarrow> dashboard parse u s
                = (s', Inl (if selected_var \<in> set (columns df) then ValueError else KeyError)))"
  by (simp add: dashboard_def render_kpis_no_rows[OF assms])

theorem empty_result_raises_witness:
  "rows \<lparr>columns = [''Timestamp'', ''kWh'', ''Period''], rows = []\<rparr> = [] \<and>
   ''Timestamp'' \<in> set (columns \<lparr>columns = [''Timestamp'', ''kWh'', ''Period''], rows = []\<rparr>) \<and>
   render_sidebar sample_parse (pick_day 5) loaded_session
     = (loaded_session, Inr (Some (sample_table, Some ''kWh'', (5, 5), [], []))) \<and>
   render_kpis \<lparr>columns = [''Timestamp'', ''kWh'', ''Period''], rows = []\<rparr> ''kWh''
     = Inl ValueError \<and>
   render_kpis \<lparr>columns = [''Timestamp'', ''kWh'', ''Period''], rows = []\<rparr> ''Power''
     = Inl KeyError \<and>
   dashboard sample_parse (pick_day 5) loaded_session = (loaded_session, Inl ValueError)"
proof -
  let ?df = "\<lparr>columns = [''Timestamp'', ''kWh'', ''Period''], rows = []\<rparr>"
  have h1: "rows ?df = []" by simp
  have h2: "''Timestamp'' \<in> set (columns ?df)" by simp
  note a = empty_result_raises[OF h1 h2, of "''kWh''" sample_parse "pick_day 5" loaded_session
      loaded_session sample_table "(5, 5)" "[]" "[]"]
  note b = empty_result_raises[OF h1 h2, of "''Power''" sample_parse "pick_day 5" loaded_session
      loaded_session sample_table "(5, 5)" "[]" "[]"]
  show ?thesis
    using a b sample_run_pick_day[of 5] sample_day_without_readings by simp
qed

section \<open>Totals per period\<close>

lemma period_keys_text:
  "list_all is_text col \<Longrightarrow>
   period_keys col = Inr (concat (map (\<lambda>c. case c of Some (Str s) \<Rightarrow> [s] | _ \<Rightarrow> []) col))"
proof (induction col)
  case Nil
  show ?case by simp
next
  case (Cons c col)
  then obtain s where "c = Some (Str s)" by (auto dest: is_textD)
  with Cons show ?case by simp
qed

lemma numeric_numbers: "list_all is_number col \<Longrightarrow> numeric col = Inr (numbers col)"
proof (induction col)
  case Nil
  show ?case by (simp add: numbers_def)
next
  case (Cons c col)
  then obtain v where "c = Some (Num v)" by (auto dest: is_numberD)
  with Cons show ?case by (simp add: numbers_def)
qed

lemma group_sums_numeric:
  assumes "numeric_column df c"
  shows "group_sums df c ks = Inr (map (\<lambda>k. (k, Num (period_total df c k))) ks)"
proof (induction ks)
  case Nil
  show ?case by simp
next
  case (Cons k ks)
  have "list_all is_number (map (\<lambda>r. cell_at r c) (group_rows df k))"
    using assms by (simp add: numeric_column_def group_rows_def list_all_iff)
  then have "sum_cells (map (\<lambda>r. cell_at r c) (group_rows df k)) = Inr (Num (period_total df c k))"
    by (simp add: sum_cells_def numeric_numbers period_total_def)
  with Cons show ?case by simp
qed

lemma totals_numeric:
  assumes "text_periods df" and "numeric_column df c" and "c \<noteq> ''Period''"
  shows "totals df c
           = Inr (reset_index c (map (\<lambda>k. (k, Num (period_total df c k))) (period_order df)))"
proof -
  have g1: "getitem df ''Period'' = Inr (map (\<lambda>r. cell_at r ''Period'') (rows df))"
    using assms(1) by (simp add: getitem_def text_periods_def)
  have g2: "getitem df c = Inr (map (\<lambda>r. cell_at r c) (rows df))"
    using assms(2) by (simp add: getitem_def numeric_column_def)
  have "list_all is_text (map (\<lambda>r. cell_at r ''Period'') (rows df))"
    using assms(1) by (simp add: text_periods_def list_all_iff)
  then have k: "period_keys (map (\<lambda>r. cell_at r ''Period'') (rows df)) = Inr (period_labels df)"
    by (simp add: period_keys_text period_labels_def comp_def)
  show ?thesis
    using assms(3)
    by (simp add: totals_def g1 g2 k group_sums_numeric[OF assms(2)] period_order_def)
qed

lemma map_snd_enumerate: "map (\<lambda>p. f (snd p)) (zip [0..<length xs] xs) = map f xs"
  by (rule nth_equalityI) simp_all

lemma reset_index_cells:
  assumes "c \<noteq> ''Period''"
  shows "map (\<lambda>r. (cell_at r ''Period'', cell_at r c)) (rows (reset_index c grouped))
           = map (\<lambda>p. (Some (Str (fst p)), Some (snd p))) grouped"
proof -
  have "map (\<lambda>r. (cell_at r ''Period'', cell_at r c)) (rows (reset_index c grouped))
          = map (\<lambda>p. (Some (Str (fst (snd p))), Some (snd (snd p))))
              (zip [0..<length grouped] grouped)"
    using assms by (simp add: reset_index_def cell_at_def case_prod_unfold comp_def)
  also have "\<dots> = map (\<lambda>p. (Some (Str (fst p)), Some (snd p))) grouped"
    by (rule map_snd_enumerate)
  finally show ?thesis .
qed

text \<open>
  C4 as stated fails on the order: in the aligned table of the sample table for February
  selected before January the first label to appear is \<open>1970-02\<close>, yet the totals list
  \<open>1970-01\<close> first.
\<close>

theorem totals_not_in_first_appearance_order:
  "build_comparison_df sample_table ''kWh'' (0, 31) [''1970-02'', ''1970-01''] [] =
     Inr (feb_then_jan,
          \<lparr>x_col = ''AlignedX'', y_col = ''kWh'', color_col = Some ''Period'',
           xaxis_title = Some ''Day of Month''\<rparr>) \<and>
   period_labels feb_then_jan = [''1970-02'', ''1970-01'', ''1970-01''] \<and>
   totals feb_then_jan ''kWh'' =
     Inr \<lparr>columns = [''Period'', ''kWh''],
          rows = [\<lparr>idx = 0, cells = [(''Period'', Str ''1970-01''), (''kWh'', Num 15)]\<rparr>,
                  \<lparr>idx = 1, cells = [(''Period'', Str ''1970-02''), (''kWh'', Num 20)]\<rparr>]\<rparr>"
proof -
  have a: "build_comparison_df sample_table ''kWh'' (0, 31) [''1970-02'', ''1970-01''] [] =
     Inr (feb_then_jan,
          \<lparr>x_col = ''AlignedX'', y_col = ''kWh'', color_col = Some ''Period'',
           xaxis_title = Some ''Day of Month''\<rparr>)"
    by code_simp
  have b: "period_labels feb_then_jan = [''1970-02'', ''1970-01'', ''1970-01'']"
    by code_simp
  have c: "totals feb_then_jan ''kWh'' =
     Inr \<lparr>columns = [''Period'', ''kWh''],
          rows = [\<lparr>idx = 0, cells = [(''Period'', Str ''1970-01''), (''kWh'', Num 15)]\<rparr>,
                  \<lparr>idx = 1, cells = [(''Period'', Str ''1970-02''), (''kWh'', Num 20)]\<rparr>]\<rparr>"
    by code_simp
  show ?thesis using a b c by (intro conjI)
qed

text \<open>
  C4, amended. For an aligned table (every row has a \<open>Period\<close> label) and a numeric
  variable, the totals have one row per distinct \<open>Period\<close> label, holding the sum of
  the variable over the rows of that period, and the rows are in ascending order of the
  label.
\<close>

theorem totals_per_period_sorted:
  assumes "text_periods df" and "numeric_column df selected_var" and "selected_var \<noteq> ''Period''"
  shows "\<exists>tot. totals df selected_var = Inr tot \<and>
           columns tot = [''Period'', selected_var] \<and>
           map (\<lambda>r. (cell_at r ''Period'', cell_at r selected_var)) (rows tot)
             = map (\<lambda>k. (Some (Str k), Some (Num (period_total df selected_var k))))
                 (period_order df) \<and>
           set (period_order df) = set (period_labels df) \<and>
           distinct (period_order df) \<and> sorted (period_order df)"
proof -
  let ?g = "map (\<lambda>k. (k, Num (period_total df selected_var k))) (period_order df)"
  have "totals df selected_var = Inr (reset_index selected_var ?g)"
    using assms by (rule totals_numeric)
  moreover have "columns (reset_index selected_var ?g) = [''Period'', selected_var]"
    by (simp add: reset_index_def)
  moreover have "map (\<lambda>r. (cell_at r ''Period'', cell_at r selected_var))
                   (rows (reset_index selected_var ?g))
                 = map (\<lambda>k. (Some (Str k), Some (Num (period_total df selected_var k))))
                     (period_order df)"
    by (simp add: reset_index_cells[OF assms(3)] comp_def)
  moreover have "set (period_order df) = set (period_labels df)"
    "distinct (period_order df)" "sorted (period_order df)"
    by (simp_all add: period_order_def)
  ultimately show ?thesis by blast
qed

theorem totals_per_period_sorted_witness:
  "text_periods feb_then_jan \<and> numeric_column feb_then_jan ''kWh'' \<and> ''kWh'' \<noteq> ''Period'' \<and>
   period_order feb_then_jan = [''1970-01'', ''1970-02''] \<and>
   period_total feb_then_jan ''kWh'' ''1970-01'' = 15 \<and>
   period_total feb_then_jan ''kWh'' ''1970-02'' = 20 \<and>
   (\<exists>tot. totals feb_then_jan ''kWh'' = Inr tot \<and>
      columns tot = [''Period'', ''kWh''] \<and>
      map (\<lambda>r. (cell_at r ''Period'', cell_at r ''kWh'')) (rows tot)
        = map (\<lambda>k. (Some (Str k), Some (Num (period_total feb_then_jan ''kWh'' k))))
            (period_order feb_then_jan) \<and>
      set (period_order feb_then_jan) = set (period_labels feb_then_jan) \<and>
      distinct (period_order feb_then_jan) \<and> sorted (period_order feb_then_jan))"
proof -
  have h1: "text_periods feb_then_jan" by code_simp
  have h2: "numeric_column feb_then_jan ''kWh''" by code_simp
  have h3: "''kWh'' \<noteq> ''Period''" by simp
  have e1: "period_order feb_then_jan = [''1970-01'', ''1970-02'']" by code_simp
  have e2: "period_total feb_then_jan ''kWh'' ''1970-01'' = 15" by code_simp
  have e3: "period_total feb_then_jan ''kWh'' ''1970-02'' = 20" by code_simp
  show ?thesis
    using h1 h2 h3 e1 e2 e3 totals_per_period_sorted[OF h1 h2 h3] by blast
qed

section \<open>A malformed upload\<close>

lemma render_sidebar_no_timestamp:
  assumes "uploaded_file u = Some (Inr df)" and "''Timestamp'' \<notin> set (columns df)"
  shows "render_sidebar parse u s = (s\<lparr>csv_data := Some df\<rparr>, Inl KeyError)"
  using assms by (simp add: render_sidebar_def getitem_def)

lemma render_sidebar_unparsable:
  assumes "uploaded_file u = Some (Inr df)" and "''Timestamp'' \<in> set (columns df)"
      and "to_datetime_col parse (map (\<lambda>r. cell_at r ''Timestamp'') (rows df)) = Inl e"
  shows "render_sidebar parse u s = (s\<lparr>csv_data := Some df\<rparr>, Inl e)"
  using assms by (simp add: render_sidebar_def getitem_def)

text \<open>
  C7 as stated fails: with the sample table loaded, uploading a table that has no
  \<open>Timestamp\<close> column raises KeyError, and the session then holds the uploaded table in
  place of the sample table.
\<close>

theorem failed_upload_replaces_table:
  "csv_data loaded_session = Some sample_table \<and>
   render_sidebar sample_parse (upload no_timestamp_table) loaded_session
     = (\<lparr>csv_data = Some no_timestamp_table, app_mode = Some ''dashboard''\<rparr>, Inl KeyError) \<and>
   no_timestamp_table \<noteq> sample_table"
proof -
  have a: "csv_data loaded_session = Some sample_table" by (simp add: loaded_session_def)
  have u: "uploaded_file (upload no_timestamp_table) = Some (Inr no_timestamp_table)"
    by (simp add: upload_def)
  have c: "''Timestamp'' \<notin> set (columns no_timestamp_table)"
    by (simp add: no_timestamp_table_def)
  have b: "render_sidebar sample_parse (upload no_timestamp_table) loaded_session
     = (\<lparr>csv_data = Some no_timestamp_table, app_mode = Some ''dashboard''\<rparr>, Inl KeyError)"
    unfolding render_sidebar_no_timestamp[OF u c] by (simp add: loaded_session_def)
  have d: "no_timestamp_table \<noteq> sample_table"
    by (simp add: no_timestamp_table_def sample_table_def)
  show ?thesis using a b d by (intro conjI)
qed

text \<open>
  C7, amended. For every uploaded CSV whose \<open>Timestamp\<close> column is absent or unparsable,
  \<open>render_sidebar\<close> raises (KeyError when the column is absent, the error of
  \<open>pd.to_datetime\<close> when a value cannot be converted), and it does so after the table
  read from the file has been stored: the session holds the uploaded table, as read, and
  no longer the table it held before.
\<close>

theorem malformed_upload_is_stored:
  assumes "uploaded_file u = Some (Inr df)"
  shows "(''Timestamp'' \<notin> set (columns df) \<longrightarrow>
            render_sidebar parse u s = (s\<lparr>csv_data := Some df\<rparr>, Inl KeyError)) \<and>
         (''Timestamp'' \<in> set (columns df) \<and>
          to_datetime_col parse (map (\<lambda>r. cell_at r ''Timestamp'') (rows df)) = Inl e \<longrightarrow>
            render_sidebar parse u s = (s\<lparr>csv_data := Some df\<rparr>, Inl e))"
  using render_sidebar_no_timestamp[OF assms] render_sidebar_unparsable[OF assms] by blast

text \<open>
  Both cases with the sample table loaded: a table with no \<open>Timestamp\<close> column, and a
  table whose second timestamp is the text \<open>yesterday\<close>.
\<close>

theorem malformed_upload_is_stored_witness:
  "uploaded_file (upload no_timestamp_table) = Some (Inr no_timestamp_table) \<and>
   ''Timestamp'' \<notin> set (columns no_timestamp_table) \<and>
   render_sidebar sample_parse (upload no_timestamp_table) loaded_session
     = (loaded_session\<lparr>csv_data := Some no_timestamp_table\<rparr>, Inl KeyError) \<and>
   uploaded_file (upload unparsable_table) = Some (Inr unparsable_table) \<and>
   ''Timestamp'' \<in> set (columns unparsable_table) \<and>
   to_datetime_col sample_parse (map (\<lambda>r. cell_at r ''Timestamp'') (rows unparsable_table))
     = Inl ValueError \<and>
   render_sidebar sample_parse (upload unparsable_table) loaded_session
     = (loaded_session\<lparr>csv_data := Some unparsable_table\<rparr>, Inl ValueError)"
proof -
  have u1: "uploaded_file (upload no_timestamp_table) = Some (Inr no_timestamp_table)"
    by (simp add: upload_def)
  have c1: "''Timestamp'' \<notin> set (columns no_timestamp_table)"
    by (simp add: no_timestamp_table_def)
  have u2: "uploaded_file (upload unparsable_table) = Some (Inr unparsable_table)"
    by (simp add: upload_def)
  have c2: "''Timestamp'' \<in> set (columns unparsable_table)"
    by (simp add: unparsable_table_def)
  have p2: "to_datetime_col sample_parse
              (map (\<lambda>r. cell_at r ''Timestamp'') (rows unparsable_table)) = Inl ValueError"
    by (simp add: unparsable_table_def cell_at_def sample_parse_def)
  show ?thesis
    using u1 c1 u2 c2 p2
      malformed_upload_is_stored[OF u1, where parse = sample_parse and s = loaded_session]
      malformed_upload_is_stored[OF u2, where parse = sample_parse and s = loaded_session
        and e = ValueError]
    by blast
qed

section \<open>The input table is not written to\<close>

lemma tag_period_store_refines:
  assumes "data < length h"
  shows "\<exists>new. fst (tag_period_store label align h data p) = h @ new \<and>
           (case snd (tag_period_store label align h data p) of
              Inl e \<Rightarrow> tag_period label align (h ! data) p = Inl e
            | Inr a \<Rightarrow> a < length (h @ new) \<and>
                       tag_period label align (h ! data) p = Inr ((h @ new) ! a))"
proof (cases "getitem (h ! data) ''Timestamp''")
  case (Inl e)
  then show ?thesis by (simp add: tag_period_store_def tag_period_def)
next
  case col: (Inr col)
  show ?thesis
  proof (cases "dt col")
    case (Inl e)
    with col show ?thesis by (simp add: tag_period_store_def tag_period_def)
  next
    case tcol: (Inr tcol)
    let ?df = "setitem_scalar ''Period'' (Str p)
                 (select_rows (map (\<lambda>c. label c = p) tcol) (h ! data))"
    show ?thesis
    proof (cases "getitem ?df ''Timestamp''")
      case (Inl e)
      with col tcol show ?thesis
        by (simp add: tag_period_store_def tag_period_def alloc_def Let_def)
    next
      case col': (Inr col')
      show ?thesis
      proof (cases "dt col'")
        case (Inl e)
        with col tcol col' show ?thesis
          by (simp add: tag_period_store_def tag_period_def alloc_def Let_def)
      next
        case (Inr tcol')
        with col tcol col' show ?thesis
          by (simp add: tag_period_store_def tag_period_def alloc_def Let_def)
      qed
    qed
  qed
qed

lemma compare_loop_store_refines:
  assumes "data < length h" and "final_df < length h"
  shows "\<exists>new. fst (compare_loop_store label align h data ps final_df) = h @ new \<and>
           (case snd (compare_loop_store label align h data ps final_df) of
              Inl e \<Rightarrow> compare_loop label align (h ! data) ps (h ! final_df) = Inl e
            | Inr a \<Rightarrow> final_df \<le> a \<and> a < length (h @ new) \<and>
                       compare_loop label align (h ! data) ps (h ! final_df)
                         = Inr ((h @ new) ! a))"
  using assms
proof (induction ps arbitrary: h final_df)
  case Nil
  then show ?case by (simp add: exI[of _ "[]"])
next
  case (Cons p ps)
  from tag_period_store_refines[OF Cons.prems(1), of label align p]
  obtain new where st: "fst (tag_period_store label align h data p) = h @ new"
    and res: "case snd (tag_period_store label align h data p) of
                Inl e \<Rightarrow> tag_period label align (h ! data) p = Inl e
              | Inr a \<Rightarrow> a < length (h @ new) \<and>
                         tag_period label align (h ! data) p = Inr ((h @ new) ! a)"
    by blast
  show ?case
  proof (cases "snd (tag_period_store label align h data p)")
    case (Inl e)
    with st res have "tag_period_store label align h data p = (h @ new, Inl e)"
      and "tag_period label align (h ! data) p = Inl e"
      by (simp_all add: prod_eq_iff)
    then show ?thesis by simp
  next
    case (Inr df_p)
    with st res have run: "tag_period_store label align h data p = (h @ new, Inr df_p)"
      and df_p: "df_p < length (h @ new)"
      and pure: "tag_period label align (h ! data) p = Inr ((h @ new) ! df_p)"
      by (simp_all add: prod_eq_iff)
    let ?h2 = "(h @ new) @ [concat_frames ((h @ new) ! final_df) ((h @ new) ! df_p)]"
    have d2: "data < length ?h2" and f2: "length (h @ new) < length ?h2"
      using Cons.prems by simp_all
    from Cons.IH[OF d2 f2, of] obtain new2
      where st2: "fst (compare_loop_store label align ?h2 data ps (length (h @ new))) = ?h2 @ new2"
        and res2: "case snd (compare_loop_store label align ?h2 data ps (length (h @ new))) of
                     Inl e \<Rightarrow> compare_loop label align (?h2 ! data) ps (?h2 ! length (h @ new)) = Inl e
                   | Inr a \<Rightarrow> length (h @ new) \<le> a \<and> a < length (?h2 @ new2) \<and>
                       compare_loop label align (?h2 ! data) ps (?h2 ! length (h @ new))
                         = Inr ((?h2 @ new2) ! a)"
      by blast
    have res2': "case snd (compare_loop_store label align ?h2 data ps (length (h @ new))) of
                     Inl e \<Rightarrow> compare_loop label align (?h2 ! data) ps (?h2 ! length (h @ new)) = Inl e
                   | Inr a \<Rightarrow> final_df \<le> a \<and> a < length (?h2 @ new2) \<and>
                       compare_loop label align (?h2 ! data) ps (?h2 ! length (h @ new))
                         = Inr ((?h2 @ new2) ! a)"
      using res2 Cons.prems(2) by (auto split: sum.splits)
    have same: "?h2 ! data = h ! data" "(h @ new) ! final_df = h ! final_df"
      using Cons.prems by (simp_all add: nth_append)
    have top: "?h2 ! length (h @ new) = concat_frames (h ! final_df) ((h @ new) ! df_p)"
      using same(2) by (simp add: nth_append)
    have unfold_store: "compare_loop_store label align h data (p # ps) final_df
            = compare_loop_store label align ?h2 data ps (length (h @ new))"
      by (simp add: run alloc_def)
    have unfold_pure: "compare_loop label align (h ! data) (p # ps) (h ! final_df)
            = compare_loop label align (?h2 ! data) ps (?h2 ! length (h @ new))"
      unfolding same(1) top by (simp add: pure)
    have eq: "h @ (new @ [concat_frames ((h @ new) ! final_df) ((h @ new) ! df_p)] @ new2)
                = ?h2 @ new2"
      by simp
    show ?thesis
      unfolding unfold_store unfold_pure
    proof (rule exI[of _ "new @ [concat_frames ((h @ new) ! final_df) ((h @ new) ! df_p)] @ new2"],
        unfold eq)
      show "fst (compare_loop_store label align ?h2 data ps (length (h @ new))) = ?h2 @ new2 \<and>
            (case snd (compare_loop_store label align ?h2 data ps (length (h @ new))) of
               Inl e \<Rightarrow> compare_loop label align (?h2 ! data) ps (?h2 ! length (h @ new)) = Inl e
             | Inr a \<Rightarrow> final_df \<le> a \<and> a < length (?h2 @ new2) \<and>
                 compare_loop label align (?h2 ! data) ps (?h2 ! length (h @ new))
                   = Inr ((?h2 @ new2) ! a))"
        using st2 res2' by (rule conjI)
    qed
  qed
qed


lemma build_range_store_refines:
  assumes "data < length h" and "months = []" and "weeks = []"
  shows "\<exists>new. fst (build_comparison_df_store h data selected_var date_range months weeks)
                 = h @ new \<and>
           (case snd (build_comparison_df_store h data selected_var date_range months weeks) of
              Inl e \<Rightarrow>
                build_comparison_df (h ! data) selected_var date_range months weeks = Inl e
            | Inr (a, trend_plot) \<Rightarrow>
                length h \<le> a \<and> a < length (h @ new) \<and>
                build_comparison_df (h ! data) selected_var date_range months weeks
                  = Inr ((h @ new) ! a, trend_plot))"
  using assms
  by (cases date_range)
     (auto simp: build_comparison_df_store_def build_comparison_df_def alloc_def Let_def
        nth_append list_update_append split: sum.splits)

lemma build_loop_store_refines:
  assumes "data < length h"
  shows "\<exists>new. fst (case compare_loop_store label align (h @ [empty_frame]) data ps (length h) of
                   (h1, Inl e) \<Rightarrow> (h1, Inl e)
                 | (h1, Inr final_df) \<Rightarrow>
                   (case px_line (h1 ! final_df) ''AlignedX'' selected_var ''Period'' of
                      Inl e \<Rightarrow> (h1, Inl e)
                    | Inr trend_plot \<Rightarrow> (h1, Inr (final_df, trend_plot\<lparr>xaxis_title := Some title\<rparr>))))
                 = h @ new \<and>
           (case snd (case compare_loop_store label align (h @ [empty_frame]) data ps (length h) of
                   (h1, Inl e) \<Rightarrow> (h1, Inl e)
                 | (h1, Inr final_df) \<Rightarrow>
                   (case px_line (h1 ! final_df) ''AlignedX'' selected_var ''Period'' of
                      Inl e \<Rightarrow> (h1, Inl e)
                    | Inr trend_plot \<Rightarrow> (h1, Inr (final_df, trend_plot\<lparr>xaxis_title := Some title\<rparr>)))) of
              Inl e \<Rightarrow>
                (case compare_loop label align (h ! data) ps empty_frame of Inl e \<Rightarrow> Inl e
                 | Inr final_df \<Rightarrow>
                   (case px_line final_df ''AlignedX'' selected_var ''Period'' of Inl e \<Rightarrow> Inl e
                    | Inr trend_plot \<Rightarrow> Inr (final_df, trend_plot\<lparr>xaxis_title := Some title\<rparr>)))
                = Inl e
            | Inr (a, trend_plot) \<Rightarrow>
                length h \<le> a \<and> a < length (h @ new) \<and>
                (case compare_loop label align (h ! data) ps empty_frame of Inl e \<Rightarrow> Inl e
                 | Inr final_df \<Rightarrow>
                   (case px_line final_df ''AlignedX'' selected_var ''Period'' of Inl e \<Rightarrow> Inl e
                    | Inr trend_plot \<Rightarrow> Inr (final_df, trend_plot\<lparr>xaxis_title := Some title\<rparr>)))
                  = Inr ((h @ new) ! a, trend_plot))"
proof -
  let ?h0 = "h @ [empty_frame]"
  have d: "data < length ?h0" and f: "length h < length ?h0" using assms by simp_all
  from compare_loop_store_refines[OF d f, of label align ps]
  obtain new where st: "fst (compare_loop_store label align ?h0 data ps (length h)) = ?h0 @ new"
    and res: "case snd (compare_loop_store label align ?h0 data ps (length h)) of
                Inl e \<Rightarrow> compare_loop label align (?h0 ! data) ps (?h0 ! length h) = Inl e
              | Inr a \<Rightarrow> length h \<le> a \<and> a < length (?h0 @ new) \<and>
                  compare_loop label align (?h0 ! data) ps (?h0 ! length h) = Inr ((?h0 @ new) ! a)"
    by blast
  have same: "?h0 ! data = h ! data" "?h0 ! length h = empty_frame"
    using assms by (simp_all add: nth_append)
  show ?thesis
  proof (cases "snd (compare_loop_store label align ?h0 data ps (length h))")
    case (Inl e)
    with st res same have "compare_loop_store label align ?h0 data ps (length h) = (?h0 @ new, Inl e)"
      and "compare_loop label align (h ! data) ps empty_frame = Inl e"
      by (simp_all add: prod_eq_iff)
    then show ?thesis by simp
  next
    case (Inr a)
    with st res same have run: "compare_loop_store label align ?h0 data ps (length h) = (?h0 @ new, Inr a)"
      and a: "length h \<le> a" "a < length (?h0 @ new)"
      and pure: "compare_loop label align (h ! data) ps empty_frame = Inr ((?h0 @ new) ! a)"
      by (simp_all add: prod_eq_iff)
    show ?thesis
      using a by (auto simp: run pure split: sum.splits intro!: exI[of _ "[empty_frame] @ new"])
  qed
qed


text \<open>
  C10. \<open>build_comparison_df\<close>, run on a store of frames with the input table at address
  \<open>data\<close>, leaves every frame that was in the store as it was, the input table among
  them: the store it leaves behind is the old store followed by new frames. What it
  returns is a new frame (or the error) and is the result computed from the input
  table by the function on values.
\<close>

theorem input_table_unchanged:
  assumes "data < length h"
  shows "\<exists>new. fst (build_comparison_df_store h data selected_var date_range months weeks)
                 = h @ new \<and>
           (h @ new) ! data = h ! data \<and>
           (case snd (build_comparison_df_store h data selected_var date_range months weeks) of
              Inl e \<Rightarrow>
                build_comparison_df (h ! data) selected_var date_range months weeks = Inl e
            | Inr (a, trend_plot) \<Rightarrow>
                length h \<le> a \<and> a < length (h @ new) \<and>
                build_comparison_df (h ! data) selected_var date_range months weeks
                  = Inr ((h @ new) ! a, trend_plot))"
proof -
  have "\<exists>new. fst (build_comparison_df_store h data selected_var date_range months weeks)
                 = h @ new \<and>
           (case snd (build_comparison_df_store h data selected_var date_range months weeks) of
              Inl e \<Rightarrow>
                build_comparison_df (h ! data) selected_var date_range months weeks = Inl e
            | Inr (a, trend_plot) \<Rightarrow>
                length h \<le> a \<and> a < length (h @ new) \<and>
                build_comparison_df (h ! data) selected_var date_range months weeks
                  = Inr ((h @ new) ! a, trend_plot))"
  proof (cases "months = []")
    case False
    have s: "build_comparison_df_store h data selected_var date_range months weeks
          = (case compare_loop_store to_period_M_str dt_day (h @ [empty_frame]) data months (length h) of
               (h1, Inl e) \<Rightarrow> (h1, Inl e)
             | (h1, Inr final_df) \<Rightarrow>
               (case px_line (h1 ! final_df) ''AlignedX'' selected_var ''Period'' of
                  Inl e \<Rightarrow> (h1, Inl e)
                | Inr trend_plot \<Rightarrow>
                    (h1, Inr (final_df, trend_plot\<lparr>xaxis_title := Some ''Day of Month''\<rparr>))))"
      using False by (cases date_range) (simp add: build_comparison_df_store_def alloc_def)
    have p: "build_comparison_df (h ! data) selected_var date_range months weeks
          = (case compare_loop to_period_M_str dt_day (h ! data) months empty_frame of
               Inl e \<Rightarrow> Inl e
             | Inr final_df \<Rightarrow>
               (case px_line final_df ''AlignedX'' selected_var ''Period'' of Inl e \<Rightarrow> Inl e
                | Inr trend_plot \<Rightarrow>
                    Inr (final_df, trend_plot\<lparr>xaxis_title := Some ''Day of Month''\<rparr>)))"
      using False by (cases date_range) (simp add: build_comparison_df_def)
    show ?thesis unfolding s p by (rule build_loop_store_refines[OF assms])
  next
    case months: True
    show ?thesis
    proof (cases "weeks = []")
      case False
      have s: "build_comparison_df_store h data selected_var date_range months weeks
            = (case compare_loop_store to_period_W_str dt_weekday (h @ [empty_frame]) data weeks
                      (length h) of
                 (h1, Inl e) \<Rightarrow> (h1, Inl e)
               | (h1, Inr final_df) \<Rightarrow>
                 (case px_line (h1 ! final_df) ''AlignedX'' selected_var ''Period'' of
                    Inl e \<Rightarrow> (h1, Inl e)
                  | Inr trend_plot \<Rightarrow>
                      (h1, Inr (final_df, trend_plot\<lparr>xaxis_title := Some ''Day of Week''\<rparr>))))"
        using False months
        by (cases date_range) (simp add: build_comparison_df_store_def alloc_def)
      have p: "build_comparison_df (h ! data) selected_var date_range months weeks
            = (case compare_loop to_period_W_str dt_weekday (h ! data) weeks empty_frame of
                 Inl e \<Rightarrow> Inl e
               | Inr final_df \<Rightarrow>
                 (case px_line final_df ''AlignedX'' selected_var ''Period'' of Inl e \<Rightarrow> Inl e
                  | Inr trend_plot \<Rightarrow>
                      Inr (final_df, trend_plot\<lparr>xaxis_title := Some ''Day of Week''\<rparr>)))"
        using False months by (cases date_range) (simp add: build_comparison_df_def)
      show ?thesis unfolding s p by (rule build_loop_store_refines[OF assms])
    next
      case True
      with months show ?thesis by (rule build_range_store_refines[OF assms])
    qed
  qed
  then obtain new
    where a: "fst (build_comparison_df_store h data selected_var date_range months weeks)
                = h @ new"
      and b: "case snd (build_comparison_df_store h data selected_var date_range months weeks) of
                Inl e \<Rightarrow>
                  build_comparison_df (h ! data) selected_var date_range months weeks = Inl e
              | Inr (a, trend_plot) \<Rightarrow>
                  length h \<le> a \<and> a < length (h @ new) \<and>
                  build_comparison_df (h ! data) selected_var date_range months weeks
                    = Inr ((h @ new) ! a, trend_plot)"
    by blast
  have c: "(h @ new) ! data = h ! data" using assms by (simp add: nth_append)
  from a b c show ?thesis by blast
qed

text \<open>
  On a store that holds the sample table only, with February selected: the store keeps
  the sample table at address 0 and the aligned table is a frame at a new address.
\<close>

theorem input_table_unchanged_witness:
  "(0::nat) < length [sample_table] \<and>
   (\<exists>new. fst (build_comparison_df_store [sample_table] 0 ''kWh'' (0, 31) [''1970-02''] [])
             = [sample_table] @ new \<and>
      ([sample_table] @ new) ! 0 = [sample_table] ! 0 \<and>
      (case snd (build_comparison_df_store [sample_table] 0 ''kWh'' (0, 31) [''1970-02''] []) of
         Inl e \<Rightarrow>
           build_comparison_df ([sample_table] ! 0) ''kWh'' (0, 31) [''1970-02''] [] = Inl e
       | Inr (a, trend_plot) \<Rightarrow>
           length [sample_table] \<le> a \<and> a < length ([sample_table] @ new) \<and>
           build_comparison_df ([sample_table] ! 0) ''kWh'' (0, 31) [''1970-02''] []
             = Inr (([sample_table] @ new) ! a, trend_plot))) \<and>
   fst (build_comparison_df_store [sample_table] 0 ''kWh'' (0, 31) [''1970-02''] []) ! 0
     = sample_table \<and>
   map_sum id fst (snd (build_comparison_df_store [sample_table] 0 ''kWh'' (0, 31) [''1970-02''] []))
     = Inr 3"
proof -
  have h: "(0::nat) < length [sample_table]" by simp
  have e1: "fst (build_comparison_df_store [sample_table] 0 ''kWh'' (0, 31) [''1970-02''] []) ! 0
              = sample_table"
    by code_simp
  have e2: "map_sum id fst
              (snd (build_comparison_df_store [sample_table] 0 ''kWh'' (0, 31) [''1970-02''] []))
              = Inr 3"
    by code_simp
  show ?thesis
    using h e1 e2
      input_table_unchanged[OF h, of "''kWh''" "(0, 31)" "[''1970-02'']" "[]"]
    by blast
qed

section \<open>The headline values of the sample table\<close>

text \<open>
  The three readings 10, 20 and 5: average 35/3, maximum 20, minimum 5, and the peak at
  the timestamp of the reading 20.
\<close>

lemma render_kpis_sample:
  "render_kpis sample_table ''kWh'' =
     Inr \<lparr>average = Some (35 / 3), maximum_value = Some 20, baseload = Some 5,
          peak_occurred_at = PeakAt [Some (Stamp 2714400000000000)]\<rparr>"
  by code_simp

end
